theory Spec2Isabelle
  imports
    Complex_Main
    "HOL-Library.Char_ord"
    "HOL-Library.List_Lexorder"
    "HOL-Library.Product_Lexorder"
    "HOL-Library.Multiset"
begin

section \<open>Python values, errors and library functions\<close>

text \<open>
  The clients of \<^verbatim>\<open>foundation/clients\<close> work on what \<^verbatim>\<open>response.json()\<close> returns:
  \<^verbatim>\<open>None\<close>, booleans, integers, floats, strings, lists and dictionaries with string keys.
  The type of floats is a parameter \<open>'f\<close>: the code only converts to float, stores floats
  and formats them, and those operations of the Python library are taken as parameters
  (the record \<open>builtins\<close>). A dictionary is an association list in insertion order;
  a lookup reads the first entry of a key.
\<close>

datatype 'f pyval =
    PNone
  | PBool bool
  | PInt int
  | PFloat 'f
  | PStr string
  | PList "'f pyval list"
  | PDict "(string \<times> 'f pyval) list"

text \<open>
  Exceptions are values. \<open>QuickBooksAuthError\<close>, \<open>ValueError\<close> and \<open>Exception\<close> carry the
  message the source builds; \<open>RequestException\<close> stands for the exceptions of the
  \<^verbatim>\<open>requests\<close> library (connection failures, \<^verbatim>\<open>HTTPError\<close>) with the library's text;
  \<open>JSONDecodeError\<close> is what \<^verbatim>\<open>response.json()\<close> raises (requests >= 2.32: both a
  \<^verbatim>\<open>RequestException\<close> and a \<^verbatim>\<open>ValueError\<close>).
\<close>

datatype error =
    QuickBooksAuthError string
  | ValueError string
  | Exception string
  | RequestException string
  | JSONDecodeError string
  | KeyError string
  | IndexError
  | TypeError
  | AttributeError
  | OverflowError

record 'f builtins =
  float_of_str :: "string \<Rightarrow> string + 'f"
    \<comment> \<open>\<^verbatim>\<open>float(s)\<close> on a string: \<open>Inl\<close> the text of the \<^verbatim>\<open>ValueError\<close>\<close>
  float_of_int :: "int \<Rightarrow> 'f"
    \<comment> \<open>\<^verbatim>\<open>float(n)\<close> on an integer within the range of the doubles\<close>
  float_truthy :: "'f \<Rightarrow> bool"
    \<comment> \<open>\<^verbatim>\<open>bool(x)\<close> on a float\<close>
  format_money :: "'f \<Rightarrow> string"
    \<comment> \<open>\<^verbatim>\<open>f"{x:,.2f}"\<close>: thousands separators and two decimals\<close>
  str_of :: "'f pyval \<Rightarrow> string"
    \<comment> \<open>\<^verbatim>\<open>str(v)\<close>\<close>
  num_less :: "'f pyval \<Rightarrow> 'f pyval \<Rightarrow> bool"
    \<comment> \<open>\<^verbatim>\<open>a < b\<close> between numbers (bool, int, float)\<close>
  list_less :: "'f pyval list \<Rightarrow> 'f pyval list \<Rightarrow> error + bool"
    \<comment> \<open>\<^verbatim>\<open>a < b\<close> between lists\<close>
  url_quote :: "string \<Rightarrow> string"
    \<comment> \<open>\<^verbatim>\<open>urllib.parse.quote\<close>\<close>
  exc_text :: "error \<Rightarrow> string"
    \<comment> \<open>\<^verbatim>\<open>str(e)\<close> of an exception raised by the interpreter itself\<close>

subsection \<open>Errors as values\<close>

definition bind :: "error + 'a \<Rightarrow> ('a \<Rightarrow> error + 'b) \<Rightarrow> error + 'b" where
  "bind m f = (case m of Inl e \<Rightarrow> Inl e | Inr x \<Rightarrow> f x)"

text \<open>\<^verbatim>\<open>str(e)\<close>: the message for the exceptions the source raises with one.\<close>

definition error_str :: "'f builtins \<Rightarrow> error \<Rightarrow> string" where
  "error_str B e =
     (case e of
        QuickBooksAuthError m \<Rightarrow> m
      | ValueError m \<Rightarrow> m
      | Exception m \<Rightarrow> m
      | RequestException m \<Rightarrow> m
      | JSONDecodeError m \<Rightarrow> m
      | _ \<Rightarrow> exc_text B e)"

subsection \<open>Strings\<close>

fun starts_with :: "string \<Rightarrow> string \<Rightarrow> bool" where
  "starts_with [] ys = True"
| "starts_with (x # xs) [] = False"
| "starts_with (x # xs) (y # ys) = (x = y \<and> starts_with xs ys)"

text \<open>\<^verbatim>\<open>sub in s\<close> on strings.\<close>

fun str_contains :: "string \<Rightarrow> string \<Rightarrow> bool" where
  "str_contains sub [] = (sub = [])"
| "str_contains sub (c # cs) = (starts_with sub (c # cs) \<or> str_contains sub cs)"

text \<open>
  A string is the list of its code points, and a character of the model is a code point
  below 256. \<^verbatim>\<open>s.lower()\<close> maps the upper-case letters among them, \<^verbatim>\<open>A\<close> to \<^verbatim>\<open>Z\<close> and
  U+00C0 to U+00DE without the sign U+00D7, to the letter 32 places on.
\<close>

definition lower_char :: "char \<Rightarrow> char" where
  "lower_char c =
     (let n = (of_char c :: nat)
      in if (65 \<le> n \<and> n \<le> 90) \<or> (192 \<le> n \<and> n \<le> 222 \<and> n \<noteq> 215)
         then char_of (n + 32) else c)"

definition lower :: "string \<Rightarrow> string" where
  "lower s = map lower_char s"

text \<open>\<^verbatim>\<open>s.strip()\<close> removes the white space at both ends: the characters for which
  \<^verbatim>\<open>str.isspace\<close> holds, which below 256 are U+0009 to U+000D, U+001C to U+0020, U+0085
  and U+00A0.\<close>

definition is_space :: "char \<Rightarrow> bool" where
  "is_space c =
     (let n = (of_char c :: nat)
      in (9 \<le> n \<and> n \<le> 13) \<or> (28 \<le> n \<and> n \<le> 32) \<or> n = 133 \<or> n = 160)"

definition strip :: "string \<Rightarrow> string" where
  "strip s = rev (dropWhile is_space (rev (dropWhile is_space s)))"

text \<open>\<^verbatim>\<open>s.split(sep)[0]\<close> and \<^verbatim>\<open>s.split(sep, 1)[0]\<close> for a non-empty separator: the text
  before the first occurrence of \<open>sep\<close>, all of \<open>s\<close> when there is none.\<close>

fun before_first :: "string \<Rightarrow> string \<Rightarrow> string" where
  "before_first sep [] = []"
| "before_first sep (c # cs) = (if starts_with sep (c # cs) then [] else c # before_first sep cs)"

subsection \<open>Operations on values\<close>

text \<open>\<^verbatim>\<open>bool(v)\<close>.\<close>

fun truthy :: "'f builtins \<Rightarrow> 'f pyval \<Rightarrow> bool" where
  "truthy B PNone = False"
| "truthy B (PBool b) = b"
| "truthy B (PInt i) = (i \<noteq> 0)"
| "truthy B (PFloat x) = float_truthy B x"
| "truthy B (PStr s) = (s \<noteq> [])"
| "truthy B (PList xs) = (xs \<noteq> [])"
| "truthy B (PDict kvs) = (kvs \<noteq> [])"

text \<open>\<^verbatim>\<open>a or b\<close>.\<close>

definition py_or :: "'f builtins \<Rightarrow> 'f pyval \<Rightarrow> 'f pyval \<Rightarrow> 'f pyval" where
  "py_or B a b = (if truthy B a then a else b)"

text \<open>\<^verbatim>\<open>v.get(k, d)\<close>: only a dictionary has \<^verbatim>\<open>get\<close>.\<close>

fun py_get :: "'f pyval \<Rightarrow> string \<Rightarrow> 'f pyval \<Rightarrow> error + 'f pyval" where
  "py_get (PDict kvs) k d = Inr (case map_of kvs k of None \<Rightarrow> d | Some v \<Rightarrow> v)"
| "py_get v k d = Inl AttributeError"

text \<open>\<^verbatim>\<open>k in v\<close> for a string \<open>k\<close>: a key of a dictionary, an element of a list, a
  substring of a string; the other values are not iterable.\<close>

fun py_in :: "string \<Rightarrow> 'f pyval \<Rightarrow> error + bool" where
  "py_in k (PDict kvs) = Inr (map_of kvs k \<noteq> None)"
| "py_in k (PList xs) = Inr (PStr k \<in> set xs)"
| "py_in k (PStr s) = Inr (str_contains k s)"
| "py_in k v = Inl TypeError"

text \<open>\<^verbatim>\<open>v[k]\<close> for a string \<open>k\<close>.\<close>

fun py_item :: "'f pyval \<Rightarrow> string \<Rightarrow> error + 'f pyval" where
  "py_item (PDict kvs) k = (case map_of kvs k of None \<Rightarrow> Inl (KeyError k) | Some v \<Rightarrow> Inr v)"
| "py_item v k = Inl TypeError"

text \<open>\<^verbatim>\<open>v[0]\<close>. The keys of these dictionaries are strings, so \<^verbatim>\<open>d[0]\<close> is a
  \<^verbatim>\<open>KeyError\<close>.\<close>

fun py_first :: "'f pyval \<Rightarrow> error + 'f pyval" where
  "py_first (PList []) = Inl IndexError"
| "py_first (PList (x # xs)) = Inr x"
| "py_first (PStr []) = Inl IndexError"
| "py_first (PStr (c # cs)) = Inr (PStr [c])"
| "py_first (PDict kvs) = Inl (KeyError ''0'')"
| "py_first v = Inl TypeError"

text \<open>\<^verbatim>\<open>float(v)\<close>. An integer that rounds beyond the largest double raises
  \<^verbatim>\<open>OverflowError\<close>.\<close>

definition float_int :: "'f builtins \<Rightarrow> int \<Rightarrow> error + 'f" where
  "float_int B i =
     (if \<bar>i\<bar> < 2 ^ 1024 - 2 ^ 970 then Inr (float_of_int B i) else Inl OverflowError)"

fun py_float :: "'f builtins \<Rightarrow> 'f pyval \<Rightarrow> error + 'f" where
  "py_float B (PFloat x) = Inr x"
| "py_float B (PInt i) = float_int B i"
| "py_float B (PBool b) = float_int B (if b then 1 else 0)"
| "py_float B (PStr s) = (case float_of_str B s of Inl m \<Rightarrow> Inl (ValueError m) | Inr x \<Rightarrow> Inr x)"
| "py_float B v = Inl TypeError"

text \<open>The test \<^verbatim>\<open>'QueryResponse' in response and k in response['QueryResponse']\<close> and,
  when it holds, the value \<^verbatim>\<open>response['QueryResponse'][k]\<close>.\<close>

definition response_list :: "'f pyval \<Rightarrow> string \<Rightarrow> error + 'f pyval option" where
  "response_list response k =
     bind (py_in ''QueryResponse'' response) (\<lambda>a.
     if \<not> a then Inr None
     else bind (py_item response ''QueryResponse'') (\<lambda>qr.
          bind (py_in k qr) (\<lambda>b.
          if \<not> b then Inr None
          else bind (py_item qr k) (\<lambda>v. Inr (Some v)))))"

text \<open>\<^verbatim>\<open>d[k] = v\<close> on a dictionary built by the code: a present key keeps its place.\<close>

fun dict_set :: "(string \<times> 'a) list \<Rightarrow> string \<Rightarrow> 'a \<Rightarrow> (string \<times> 'a) list" where
  "dict_set [] k v = [(k, v)]"
| "dict_set ((k', v') # kvs) k v = (if k' = k then (k, v) # kvs else (k', v') # dict_set kvs k v)"

section \<open>The session and the remote service\<close>

text \<open>
  \<^verbatim>\<open>QuickBooksClient\<close>: the fields of one tenant's session. \<open>access_token\<close> is
  \<^verbatim>\<open>self.auth_client.access_token\<close>, the only field that changes after construction.
\<close>

record session =
  company_prefix :: string
  client_id :: string
  client_secret :: string
  refresh_token :: string
  realm_id :: string
  access_token :: string

record 'f request =
  req_method :: string
  req_url :: string
  req_headers :: "(string \<times> string) list"
  req_params :: "(string \<times> 'f pyval) list"
  req_json :: "'f pyval option"

text \<open>A response of the HTTP library: \<open>json_body\<close> is what \<^verbatim>\<open>response.json()\<close>
  returns, \<open>None\<close> when the body is not JSON.\<close>

record 'f response =
  status_code :: nat
  text_body :: string
  json_body :: "'f pyval option"

text \<open>\<^verbatim>\<open>requests.request\<close> returns a response or raises a \<^verbatim>\<open>RequestException\<close>, with
  its text and the response it may carry.\<close>

datatype 'f http_result =
    Responded "'f response"
  | RequestFailed string "'f response option"

text \<open>
  Everything outside the process: the accounting API, the token endpoint, the process
  environment and the clock. The remote side has a state \<open>'w\<close> of its own, which every
  call may change.
\<close>

record ('f, 'w) env =
  http :: "'f request \<Rightarrow> 'w \<Rightarrow> 'f http_result \<times> 'w"
  oauth_refresh :: "session \<Rightarrow> 'w \<Rightarrow> (string + string) \<times> 'w"
    \<comment> \<open>\<^verbatim>\<open>auth_client.refresh(refresh_token=...)\<close>: \<open>Inr\<close> the new access token,
        \<open>Inl\<close> the text of the exception\<close>
  getenv :: "string \<Rightarrow> string option"
  today :: "'w \<Rightarrow> string"
    \<comment> \<open>\<^verbatim>\<open>datetime.now().strftime('%Y-%m-%d')\<close>\<close>
  timestamp :: "'w \<Rightarrow> string"
    \<comment> \<open>\<^verbatim>\<open>datetime.now().strftime('%Y%m%d-%H%M%S')\<close>\<close>
  days_ago_100 :: "'w \<Rightarrow> string"
    \<comment> \<open>\<^verbatim>\<open>(datetime.now() - timedelta(days=100)).strftime('%Y-%m-%d')\<close>\<close>
  http_error_text :: "'f response \<Rightarrow> string"
    \<comment> \<open>\<^verbatim>\<open>str(e)\<close> of the \<^verbatim>\<open>HTTPError\<close> that \<^verbatim>\<open>raise_for_status\<close> raises\<close>
  json_error_text :: "'f response \<Rightarrow> string"
    \<comment> \<open>\<^verbatim>\<open>str(e)\<close> of the error that \<^verbatim>\<open>response.json()\<close> raises\<close>

text \<open>
  The state a client call runs in: the session, the remote state, and two history
  variables: the requests sent so far (oldest first) and the number of token refreshes
  asked for.
\<close>

record ('f, 'w) state =
  sess :: session
  world :: 'w
  sent :: "'f request list"
  refreshes :: nat

type_synonym ('a, 'f, 'w) action = "('f, 'w) state \<Rightarrow> (error + 'a) \<times> ('f, 'w) state"

definition BASE_URL :: string where
  "BASE_URL = ''https://quickbooks.api.intuit.com/v3/company''"

definition PLAYGROUND_URL :: string where
  "PLAYGROUND_URL = ''https://developer.intuit.com/app/developer/playground''"

subsection \<open>Token refresh\<close>

text \<open>\<^verbatim>\<open>_handle_auth_error\<close>: always raises, with remediation steps when the refresh token
  itself has expired.\<close>

definition handle_auth_error :: "session \<Rightarrow> string \<Rightarrow> error" where
  "handle_auth_error c error_msg =
     (if str_contains ''invalid_grant'' (lower error_msg) then
        QuickBooksAuthError
          ([CHR 0x0A] @ ''QuickBooks refresh token has expired for '' @ company_prefix c @ ''!''
           @ [CHR 0x0A] @ ''Please follow these steps:'' @ [CHR 0x0A]
           @ ''1. Go to '' @ PLAYGROUND_URL @ [CHR 0x0A]
           @ ''2. Enter these credentials:'' @ [CHR 0x0A]
           @ ''   Client ID: '' @ client_id c @ [CHR 0x0A]
           @ ''   Client Secret: '' @ client_secret c @ [CHR 0x0A]
           @ ''3. Click 'Get authorization code' and sign in with '' @ company_prefix c
           @ '' credentials'' @ [CHR 0x0A]
           @ ''4. Click 'Get tokens'' @ [CHR 0x27, CHR 0x0A]
           @ ''5. Update the '' @ company_prefix c @ ''_QB_REFRESH_TOKEN in your .env file''
           @ [CHR 0x0A]
           @ ''6. Update Heroku: heroku config:set '' @ company_prefix c
           @ ''_QB_REFRESH_TOKEN='new_token' --app propertyops'' @ [CHR 0x0A])
      else
        QuickBooksAuthError
          (''Failed to authenticate with QuickBooks for '' @ company_prefix c @ '': ''
           @ error_msg))"

text \<open>\<^verbatim>\<open>refresh_access_token\<close>: one call of the token endpoint; on success the session
  holds the new access token.\<close>

definition refresh_access_token :: "('f, 'w) env \<Rightarrow> (unit, 'f, 'w) action" where
  "refresh_access_token E s =
     (case oauth_refresh E (sess s) (world s) of
        (Inr tok, w') \<Rightarrow>
          (Inr (), s\<lparr>sess := (sess s)\<lparr>access_token := tok\<rparr>, world := w',
                     refreshes := Suc (refreshes s)\<rparr>)
      | (Inl msg, w') \<Rightarrow>
          (Inl (handle_auth_error (sess s) msg),
           s\<lparr>world := w', refreshes := Suc (refreshes s)\<rparr>))"

subsection \<open>The request executor\<close>

text \<open>One call of \<^verbatim>\<open>requests.request\<close>: the request is recorded, the remote state moves.\<close>

definition send :: "('f, 'w) env \<Rightarrow> 'f request \<Rightarrow> ('f, 'w) state \<Rightarrow> 'f http_result \<times> ('f, 'w) state" where
  "send E rq s =
     (case http E rq (world s) of
        (res, w') \<Rightarrow> (res, s\<lparr>world := w', sent := sent s @ [rq]\<rparr>))"

text \<open>\<^verbatim>\<open>response.raise_for_status()\<close> raises for the status codes 400 to 599.\<close>

definition is_error_status :: "nat \<Rightarrow> bool" where
  "is_error_status n = (400 \<le> n \<and> n < 600)"

text \<open>
  The handler \<^verbatim>\<open>except requests.exceptions.RequestException as e\<close> of \<^verbatim>\<open>_make_request\<close>,
  for an exception with text \<open>msg\<close> and response \<open>ro\<close>. It always raises.
\<close>

definition fault_field :: "'f builtins \<Rightarrow> 'f pyval \<Rightarrow> string \<Rightarrow> 'f pyval \<Rightarrow> error + 'f pyval" where
  "fault_field B error_details k d =
     bind (py_item error_details ''Fault'') (\<lambda>fault.
     bind (py_get fault ''Error'' (PList [PDict []])) (\<lambda>errs.
     bind (py_first errs) (\<lambda>err.
     py_get err k d)))"

definition request_exception_handler ::
  "'f builtins \<Rightarrow> string \<Rightarrow> 'f response option \<Rightarrow> error" where
  "request_exception_handler B msg ro =
     (case ro of
        None \<Rightarrow> Exception (''QuickBooks API request failed: '' @ msg)
      | Some r \<Rightarrow>
          (case json_body r of
             None \<Rightarrow> Exception (''QuickBooks API error: '' @ text_body r)
           | Some error_details \<Rightarrow>
               (case py_in ''Fault'' error_details of
                  Inl e \<Rightarrow> e
                | Inr False \<Rightarrow> Exception (''QuickBooks API request failed: '' @ msg)
                | Inr True \<Rightarrow>
                    (case fault_field B error_details ''Message'' (PStr msg) of
                       Inl e \<Rightarrow> e
                     | Inr error_msg \<Rightarrow>
                         (case fault_field B error_details ''Detail'' (PStr []) of
                            Inl e \<Rightarrow> e
                          | Inr error_detail \<Rightarrow>
                              Exception (''QuickBooks API error: '' @ str_of B error_msg
                                         @ ''. '' @ str_of B error_detail))))))"

text \<open>The tail of \<^verbatim>\<open>_make_request\<close>: \<^verbatim>\<open>response.raise_for_status()\<close> and
  \<^verbatim>\<open>return response.json()\<close>, both under the handler.\<close>

definition finish_request :: "'f builtins \<Rightarrow> ('f, 'w) env \<Rightarrow> 'f response \<Rightarrow> error + 'f pyval" where
  "finish_request B E r =
     (if is_error_status (status_code r)
      then Inl (request_exception_handler B (http_error_text E r) (Some r))
      else (case json_body r of
              None \<Rightarrow> Inl (request_exception_handler B (json_error_text E r) None)
            | Some j \<Rightarrow> Inr j))"

definition make_headers :: "session \<Rightarrow> (string \<times> string) list" where
  "make_headers c =
     [(''Authorization'', ''Bearer '' @ access_token c),
      (''Accept'', ''application/json''),
      (''Content-Type'', ''application/json'')]"

text \<open>The request \<^verbatim>\<open>_make_request\<close> builds: the realm's URL, the bearer token of the
  session, and \<^verbatim>\<open>minorversion=75\<close> always among the parameters.\<close>

definition build_request ::
  "session \<Rightarrow> string \<Rightarrow> string \<Rightarrow> (string \<times> 'f pyval) list option \<Rightarrow> 'f pyval option
     \<Rightarrow> 'f request" where
  "build_request c endpoint method params js =
     \<lparr>req_method = method,
      req_url = BASE_URL @ ''/'' @ realm_id c @ ''/'' @ endpoint,
      req_headers = make_headers c,
      req_params = dict_set (case params of None \<Rightarrow> [] | Some ps \<Rightarrow> ps)
                     ''minorversion'' (PStr ''75''),
      req_json = js\<rparr>"

text \<open>\<^verbatim>\<open>headers["Authorization"] = f"Bearer {self.auth_client.access_token}"\<close> before
  the retry.\<close>

definition with_token :: "session \<Rightarrow> 'f request \<Rightarrow> 'f request" where
  "with_token c rq =
     rq\<lparr>req_headers := dict_set (req_headers rq) ''Authorization''
                           (''Bearer '' @ access_token c)\<rparr>"

text \<open>
  \<^verbatim>\<open>_make_request(endpoint, method, params, json)\<close>. A 401 answer makes one token
  refresh and one retry with the new token; a failed refresh raises out of the call
  (a \<^verbatim>\<open>QuickBooksAuthError\<close> is not a \<^verbatim>\<open>RequestException\<close>); a second 401 raises
  \<^verbatim>\<open>QuickBooksAuthError("Authentication failed even after token refresh")\<close>.
\<close>

definition make_request ::
  "'f builtins \<Rightarrow> ('f, 'w) env \<Rightarrow> string \<Rightarrow> string \<Rightarrow> (string \<times> 'f pyval) list option
     \<Rightarrow> 'f pyval option \<Rightarrow> ('f pyval, 'f, 'w) action" where
  "make_request B E endpoint method params js s =
     (let rq = build_request (sess s) endpoint method params js
      in case send E rq s of
           (RequestFailed msg ro, s1) \<Rightarrow> (Inl (request_exception_handler B msg ro), s1)
         | (Responded r, s1) \<Rightarrow>
             if status_code r = 401 then
               (case refresh_access_token E s1 of
                  (Inl e, s2) \<Rightarrow> (Inl e, s2)
                | (Inr u, s2) \<Rightarrow>
                    (case send E (with_token (sess s2) rq) s2 of
                       (RequestFailed msg ro, s3) \<Rightarrow>
                         (Inl (request_exception_handler B msg ro), s3)
                     | (Responded r2, s3) \<Rightarrow>
                         if status_code r2 = 401
                         then (Inl (QuickBooksAuthError
                                      ''Authentication failed even after token refresh''), s3)
                         else (finish_request B E r2, s3)))
             else (finish_request B E r, s1))"

text \<open>
  \<^verbatim>\<open>_query_direct(query_string)\<close>: a GET of the query endpoint with the query
  URL-encoded into the address. The same refresh and retry on 401; every exception is
  raised again as it is.
\<close>

definition query_request :: "'f builtins \<Rightarrow> session \<Rightarrow> string \<Rightarrow> 'f request" where
  "query_request B c query_string =
     \<lparr>req_method = ''GET'',
      req_url = BASE_URL @ ''/'' @ realm_id c @ ''/query?query='' @ url_quote B query_string
                @ ''&minorversion=75'',
      req_headers = [(''Authorization'', ''Bearer '' @ access_token c),
                     (''Accept'', ''application/json'')],
      req_params = [],
      req_json = None\<rparr>"

definition finish_query :: "('f, 'w) env \<Rightarrow> 'f response \<Rightarrow> error + 'f pyval" where
  "finish_query E r =
     (if is_error_status (status_code r) then Inl (RequestException (http_error_text E r))
      else (case json_body r of
              None \<Rightarrow> Inl (JSONDecodeError (json_error_text E r))
            | Some j \<Rightarrow> Inr j))"

definition query_direct ::
  "'f builtins \<Rightarrow> ('f, 'w) env \<Rightarrow> string \<Rightarrow> ('f pyval, 'f, 'w) action" where
  "query_direct B E query_string s =
     (let rq = query_request B (sess s) query_string
      in case send E rq s of
           (RequestFailed msg ro, s1) \<Rightarrow> (Inl (RequestException msg), s1)
         | (Responded r, s1) \<Rightarrow>
             if status_code r = 401 then
               (case refresh_access_token E s1 of
                  (Inl e, s2) \<Rightarrow> (Inl e, s2)
                | (Inr u, s2) \<Rightarrow>
                    (case send E (with_token (sess s2) rq) s2 of
                       (RequestFailed msg ro, s3) \<Rightarrow> (Inl (RequestException msg), s3)
                     | (Responded r2, s3) \<Rightarrow>
                         if status_code r2 = 401
                         then (Inl (QuickBooksAuthError
                                      ''Authentication failed even after token refresh''), s3)
                         else (finish_query E r2, s3)))
             else (finish_query E r, s1))"

section \<open>Construction of a session\<close>

text \<open>\<^verbatim>\<open>all([...])\<close> over the four credentials: each is set and not empty.\<close>

definition present :: "string option \<Rightarrow> bool" where
  "present v = (case v of None \<Rightarrow> False | Some x \<Rightarrow> x \<noteq> [])"

text \<open>
  \<^verbatim>\<open>QuickBooksClient.__init__(company_prefix)\<close>: the client id and secret come from the
  two variables shared by all tenants, the refresh token and the realm id from the
  variables named after the tenant. A missing credential raises \<^verbatim>\<open>ValueError\<close>; then
  the first access token is fetched, and a failure there raises out of the constructor.
  Before that first refresh the access token of the auth client is \<^verbatim>\<open>None\<close>; no
  request is built from it.
\<close>

type_synonym ('f, 'w) outside = "'w \<times> 'f request list \<times> nat"

definition outside :: "('f, 'w) state \<Rightarrow> ('f, 'w) outside" where
  "outside s = (world s, sent s, refreshes s)"

definition client_init ::
  "('f, 'w) env \<Rightarrow> string \<Rightarrow> ('f, 'w) outside \<Rightarrow> (error + session) \<times> ('f, 'w) outside" where
  "client_init E prefix out =
     (let cid = getenv E ''QUICKBOOKS_CLIENT_ID'';
          sec = getenv E ''QUICKBOOKS_CLIENT_SECRET'';
          rt = getenv E (prefix @ ''_QB_REFRESH_TOKEN'');
          realm = getenv E (prefix @ ''_QB_REALM_ID'')
      in if \<not> (present cid \<and> present sec \<and> present rt \<and> present realm)
         then (Inl (ValueError (''Missing required QuickBooks credentials for '' @ prefix)), out)
         else (case refresh_access_token E
                      \<lparr>sess = \<lparr>company_prefix = prefix, client_id = the cid,
                                 client_secret = the sec, refresh_token = the rt,
                                 realm_id = the realm, access_token = []\<rparr>,
                       world = fst out, sent = fst (snd out), refreshes = snd (snd out)\<rparr> of
                 (Inl e, s') \<Rightarrow> (Inl e, outside s')
               | (Inr u, s') \<Rightarrow> (Inr (sess s'), outside s')))"

text \<open>\<^verbatim>\<open>", ".join(xs)\<close>.\<close>

fun join :: "string \<Rightarrow> string list \<Rightarrow> string" where
  "join sep [] = []"
| "join sep [x] = x"
| "join sep (x # y # ys) = x @ sep @ join sep (y # ys)"

text \<open>The list \<^verbatim>\<open>missing\<close> of \<^verbatim>\<open>test_connection\<close>.\<close>

definition missing_credentials :: "session \<Rightarrow> string list" where
  "missing_credentials c =
     (if client_id c = [] then [''QUICKBOOKS_CLIENT_ID''] else [])
     @ (if client_secret c = [] then [''QUICKBOOKS_CLIENT_SECRET''] else [])
     @ (if refresh_token c = [] then [company_prefix c @ ''_QB_REFRESH_TOKEN''] else [])
     @ (if realm_id c = [] then [company_prefix c @ ''_QB_REALM_ID''] else [])"

text \<open>\<^verbatim>\<open>test_connection\<close>: \<^verbatim>\<open>True\<close> or an exception. The company name is read for the
  log, by \<^verbatim>\<open>response['CompanyInfo'].get('CompanyName', 'Unknown')\<close>, which raises when
  the company information is no object.\<close>

definition test_connection :: "'f builtins \<Rightarrow> ('f, 'w) env \<Rightarrow> (bool, 'f, 'w) action" where
  "test_connection B E s =
     (let c = sess s in
      if client_id c = [] \<or> client_secret c = [] \<or> refresh_token c = [] \<or> realm_id c = []
      then (Inl (ValueError (''Missing required QuickBooks credentials: ''
                             @ join '', '' (missing_credentials c))), s)
      else (case refresh_access_token E s of
              (Inl e, s1) \<Rightarrow> (Inl e, s1)
            | (Inr u, s1) \<Rightarrow>
                (case make_request B E (''companyinfo/'' @ realm_id (sess s1)) ''GET'' None None s1 of
                   (Inl e, s2) \<Rightarrow> (Inl e, s2)
                 | (Inr response, s2) \<Rightarrow>
                     (case py_in ''CompanyInfo'' response of
                        Inl e \<Rightarrow> (Inl e, s2)
                      | Inr True \<Rightarrow>
                          (bind (py_item response ''CompanyInfo'') (\<lambda>info.
                           bind (py_get info ''CompanyName'' (PStr ''Unknown'')) (\<lambda>company_name.
                           Inr True)), s2)
                      | Inr False \<Rightarrow>
                          (Inl (Exception ''Invalid response format from QuickBooks API''), s2)))))"

section \<open>The aging report\<close>

text \<open>
  \<^verbatim>\<open>QuickBooksClient.get_ar_aging(as_of_date)\<close>: the date is the formatted
  \<^verbatim>\<open>as_of_date\<close> or today's. Every exception of the request, the authentication errors
  among them, is caught and returned as the dictionary \<^verbatim>\<open>{"error": str(e)}\<close>.
\<close>

definition get_ar_aging ::
  "'f builtins \<Rightarrow> ('f, 'w) env \<Rightarrow> string option \<Rightarrow> ('f, 'w) state \<Rightarrow> 'f pyval \<times> ('f, 'w) state" where
  "get_ar_aging B E as_of_date s =
     (let params = [(''report_date'',
                       PStr (case as_of_date of None \<Rightarrow> today E (world s) | Some d \<Rightarrow> d)),
                    (''aging_period'', PInt 30),
                    (''num_periods'', PInt 4)]
      in case make_request B E ''reports/AgedReceivables'' ''GET'' (Some params) None s of
           (Inl e, s') \<Rightarrow> (PDict [(''error'', PStr (error_str B e))], s')
         | (Inr j, s') \<Rightarrow> (j, s'))"

subsection \<open>The formatter\<close>

text \<open>\<^verbatim>\<open>for x in v\<close>: the elements of a list, the keys of a dictionary, the characters
  of a string.\<close>

fun py_iter :: "'f pyval \<Rightarrow> error + 'f pyval list" where
  "py_iter (PList xs) = Inr xs"
| "py_iter (PDict kvs) = Inr (map (\<lambda>kv. PStr (fst kv)) kvs)"
| "py_iter (PStr s) = Inr (map (\<lambda>c. PStr [c]) s)"
| "py_iter v = Inl TypeError"

text \<open>\<^verbatim>\<open>v[1:]\<close>; a dictionary cannot be sliced (\<^verbatim>\<open>TypeError\<close>, a \<^verbatim>\<open>KeyError\<close> from
  Python 3.12 on).\<close>

fun py_rest :: "'f pyval \<Rightarrow> error + 'f pyval" where
  "py_rest (PList xs) = Inr (PList (drop 1 xs))"
| "py_rest (PStr s) = Inr (PStr (drop 1 s))"
| "py_rest v = Inl TypeError"

text \<open>\<^verbatim>\<open>value.replace('$', '').replace(',', '')\<close>.\<close>

definition clean_money :: "string \<Rightarrow> string" where
  "clean_money s = filter (\<lambda>c. c \<noteq> CHR ''$'' \<and> c \<noteq> CHR '','') s"

text \<open>
  The \<^verbatim>\<open>try\<close> block of a money cell: a string that \<^verbatim>\<open>float\<close> accepts is rendered
  as \<^verbatim>\<open>f"${amount:,.2f}"\<close>, a string it rejects is kept as it is (the \<^verbatim>\<open>ValueError\<close> is
  caught), and a value that is no string has no \<^verbatim>\<open>replace\<close>.
\<close>

definition money_cell :: "'f builtins \<Rightarrow> 'f pyval \<Rightarrow> error + 'f pyval" where
  "money_cell B v =
     (case v of
        PStr s \<Rightarrow>
          (case float_of_str B (clean_money s) of
             Inl m \<Rightarrow> Inr (PStr s)
           | Inr amount \<Rightarrow> Inr (PStr (''$'' @ format_money B amount)))
      | _ \<Rightarrow> Inl AttributeError)"

text \<open>The inner loop \<^verbatim>\<open>for i, col in enumerate(col_data)\<close>, from index \<open>i\<close> on.\<close>

fun format_cols :: "'f builtins \<Rightarrow> nat \<Rightarrow> 'f pyval list \<Rightarrow> error + 'f pyval list" where
  "format_cols B i [] = Inr []"
| "format_cols B i (col # cols) =
     bind (py_get col ''value'' (PStr [])) (\<lambda>v.
     bind (if i = 0 then Inr v
           else money_cell B (if v = PStr [] then PStr ''0.00'' else v)) (\<lambda>cell.
     bind (format_cols B (Suc i) cols) (\<lambda>rest.
     Inr (cell # rest))))"

text \<open>The first loop over the rows: the rows without \<^verbatim>\<open>ColData\<close> and the section rows
  are skipped.\<close>

fun format_rows :: "'f builtins \<Rightarrow> 'f pyval list \<Rightarrow> error + 'f pyval list list" where
  "format_rows B [] = Inr []"
| "format_rows B (row # rows) =
     bind (py_get row ''ColData'' PNone) (\<lambda>col_data.
     bind (if \<not> truthy B col_data then Inr True
           else bind (py_get row ''type'' PNone) (\<lambda>t. Inr (t = PStr ''Section''))) (\<lambda>skip.
     if skip then format_rows B rows
     else bind (py_iter col_data) (\<lambda>cols.
          bind (format_cols B 0 cols) (\<lambda>row_data.
          bind (format_rows B rows) (\<lambda>rest.
          Inr (row_data # rest))))))"

text \<open>The loop over the summary columns \<^verbatim>\<open>col_data[1:]\<close> of the grand total.\<close>

fun format_total_cols :: "'f builtins \<Rightarrow> 'f pyval list \<Rightarrow> error + 'f pyval list" where
  "format_total_cols B [] = Inr []"
| "format_total_cols B (col # cols) =
     bind (py_get col ''value'' (PStr ''0.00'')) (\<lambda>v.
     bind (money_cell B v) (\<lambda>cell.
     bind (format_total_cols B cols) (\<lambda>rest.
     Inr (cell # rest))))"

text \<open>The second loop over the rows: the first section row of the group
  \<^verbatim>\<open>GrandTotal\<close> gives the row \<^verbatim>\<open>TOTAL\<close>, and the loop stops there.\<close>

fun total_rows :: "'f builtins \<Rightarrow> 'f pyval list \<Rightarrow> error + 'f pyval list list" where
  "total_rows B [] = Inr []"
| "total_rows B (row # rows) =
     bind (py_get row ''type'' PNone) (\<lambda>t.
     bind (if t = PStr ''Section''
           then bind (py_get row ''group'' PNone) (\<lambda>g. Inr (g = PStr ''GrandTotal''))
           else Inr False) (\<lambda>is_total.
     if is_total then
       bind (py_get row ''Summary'' (PDict [])) (\<lambda>summary.
       bind (py_get summary ''ColData'' (PList [])) (\<lambda>col_data.
       bind (py_rest col_data) (\<lambda>r.
       bind (py_iter r) (\<lambda>cols.
       bind (format_total_cols B cols) (\<lambda>cells.
       Inr [PStr ''TOTAL'' # cells])))))
     else total_rows B rows))"

definition report_headers :: "'f pyval list" where
  "report_headers =
     map PStr [''Customer'', ''Current'', ''1-30 Days'', ''31-60 Days'', ''61-90 Days'',
               ''91+ Days'', ''Total'']"

text \<open>\<^verbatim>\<open>MultiTenantQB.format_ar_report(report)\<close>.\<close>

definition format_ar_report :: "'f builtins \<Rightarrow> 'f pyval \<Rightarrow> error + 'f pyval list list" where
  "format_ar_report B report =
     (if \<not> truthy B report then Inr []
      else bind (py_in ''Rows'' report) (\<lambda>has_rows.
           if \<not> has_rows then Inr []
           else bind (py_item report ''Rows'') (\<lambda>rs.
                bind (py_get rs ''Row'' (PList [])) (\<lambda>rowsv.
                bind (py_iter rowsv) (\<lambda>rows.
                bind (format_rows B rows) (\<lambda>data.
                bind (total_rows B rows) (\<lambda>total.
                Inr (report_headers # data @ total))))))))"

section \<open>The pool of tenants\<close>

definition Companies_all :: "string list" where
  "Companies_all = [''DJANGO'', ''STANDARD_MANAGEMENT_COMPANY'', ''STANDARD_PROPERTIES'', ''CMR'']"

text \<open>
  \<^verbatim>\<open>MultiTenantQB\<close>: the configured companies and the clients that could be built.
  The remote state and the history are shared by the sessions of the pool.
\<close>

record ('f, 'w) pool =
  companies :: "string list"
  clients :: "(string \<times> session) list"
  pool_outside :: "('f, 'w) outside"

definition client_state :: "('f, 'w) pool \<Rightarrow> session \<Rightarrow> ('f, 'w) state" where
  "client_state p c =
     \<lparr>sess = c, world = fst (pool_outside p), sent = fst (snd (pool_outside p)),
      refreshes = snd (snd (pool_outside p))\<rparr>"

definition pool_after :: "('f, 'w) pool \<Rightarrow> string \<Rightarrow> ('f, 'w) state \<Rightarrow> ('f, 'w) pool" where
  "pool_after p company s =
     p\<lparr>clients := dict_set (clients p) company (sess s), pool_outside := outside s\<rparr>"

text \<open>\<^verbatim>\<open>_initialize_clients\<close>: a \<^verbatim>\<open>ValueError\<close> of a constructor leaves that company
  without a client; any other exception of a constructor raises out of the loop.\<close>

fun initialize_clients ::
  "('f, 'w) env \<Rightarrow> string list \<Rightarrow> ('f, 'w) pool \<Rightarrow> (error + unit) \<times> ('f, 'w) pool" where
  "initialize_clients E [] p = (Inr (), p)"
| "initialize_clients E (company # rest) p =
     (case client_init E company (pool_outside p) of
        (Inr c, out) \<Rightarrow>
          initialize_clients E rest
            (p\<lparr>clients := dict_set (clients p) company c, pool_outside := out\<rparr>)
      | (Inl (ValueError m), out) \<Rightarrow> initialize_clients E rest (p\<lparr>pool_outside := out\<rparr>)
      | (Inl e, out) \<Rightarrow> (Inl e, p\<lparr>pool_outside := out\<rparr>))"

text \<open>\<^verbatim>\<open>MultiTenantQB.__init__(companies)\<close>: \<^verbatim>\<open>companies or Companies.all()\<close>.\<close>

definition pool_init ::
  "('f, 'w) env \<Rightarrow> string list option \<Rightarrow> 'w \<Rightarrow> (error + unit) \<times> ('f, 'w) pool" where
  "pool_init E cs w =
     (let cs' = (case cs of None \<Rightarrow> Companies_all | Some l \<Rightarrow> if l = [] then Companies_all else l)
      in initialize_clients E cs'
           \<lparr>companies = cs', clients = [], pool_outside = (w, [], 0)\<rparr>)"

definition get_client :: "('f, 'w) pool \<Rightarrow> string \<Rightarrow> session option" where
  "get_client p company = map_of (clients p) company"

text \<open>The result of \<^verbatim>\<open>MultiTenantQB.get_ar_aging\<close>: the two dictionaries \<^verbatim>\<open>reports\<close>
  and \<^verbatim>\<open>auth_errors\<close>.\<close>

record 'f aggregate =
  reports :: "(string \<times> 'f pyval list list) list"
  auth_errors :: "(string \<times> string) list"

text \<open>
  The loop of \<^verbatim>\<open>MultiTenantQB.get_ar_aging\<close>. A company without a client is skipped.
  The \<^verbatim>\<open>try\<close> block calls the client's \<^verbatim>\<open>get_ar_aging\<close>, which returns a value whatever
  happens, and formats it; what can raise there is the formatter, and never with a
  \<^verbatim>\<open>QuickBooksAuthError\<close>. The two handlers are kept as the source has them.
\<close>

fun aging_loop ::
  "'f builtins \<Rightarrow> ('f, 'w) env \<Rightarrow> string list \<Rightarrow> 'f aggregate \<Rightarrow> ('f, 'w) pool
     \<Rightarrow> 'f aggregate \<times> ('f, 'w) pool" where
  "aging_loop B E [] acc p = (acc, p)"
| "aging_loop B E (company # rest) acc p =
     (case get_client p company of
        None \<Rightarrow> aging_loop B E rest acc p
      | Some client \<Rightarrow>
          (case get_ar_aging B E None (client_state p client) of
             (raw_report, s') \<Rightarrow>
               (case format_ar_report B raw_report of
                  Inr formatted_report \<Rightarrow>
                    aging_loop B E rest
                      (acc\<lparr>reports := dict_set (reports acc) company formatted_report\<rparr>)
                      (pool_after p company s')
                | Inl (QuickBooksAuthError m) \<Rightarrow>
                    aging_loop B E rest
                      (acc\<lparr>auth_errors := dict_set (auth_errors acc) company m\<rparr>)
                      (pool_after p company s')
                | Inl e \<Rightarrow> aging_loop B E rest acc (pool_after p company s'))))"

text \<open>\<^verbatim>\<open>MultiTenantQB.get_ar_aging(companies)\<close>: \<^verbatim>\<open>companies or self.companies\<close>.\<close>

definition MultiTenantQB_get_ar_aging ::
  "'f builtins \<Rightarrow> ('f, 'w) env \<Rightarrow> string list option \<Rightarrow> ('f, 'w) pool
     \<Rightarrow> 'f aggregate \<times> ('f, 'w) pool" where
  "MultiTenantQB_get_ar_aging B E cs p =
     aging_loop B E
       (case cs of None \<Rightarrow> companies p | Some l \<Rightarrow> if l = [] then companies p else l)
       \<lparr>reports = [], auth_errors = []\<rparr> p"

section \<open>Transactions\<close>

text \<open>\<^verbatim>\<open>v.get(k1, {}).get(k2, d)\<close>.\<close>

definition py_get2 :: "'f pyval \<Rightarrow> string \<Rightarrow> string \<Rightarrow> 'f pyval \<Rightarrow> error + 'f pyval" where
  "py_get2 v k1 k2 d = bind (py_get v k1 (PDict [])) (\<lambda>x. py_get x k2 d)"

text \<open>\<^verbatim>\<open>a or b\<close> where both sides may raise: \<open>b\<close> is evaluated only when \<open>a\<close> is falsy.\<close>

definition or_else ::
  "'f builtins \<Rightarrow> error + 'f pyval \<Rightarrow> error + 'f pyval \<Rightarrow> error + 'f pyval" where
  "or_else B a b = bind a (\<lambda>x. if truthy B x then Inr x else b)"

text \<open>The account reference of a line, by its detail type; \<^verbatim>\<open>None\<close> for another type.\<close>

definition account_ref_of :: "'f pyval \<Rightarrow> 'f pyval \<Rightarrow> error + 'f pyval" where
  "account_ref_of line detail_type =
     (if detail_type = PStr ''AccountBasedExpenseLineDetail''
      then py_get2 line ''AccountBasedExpenseLineDetail'' ''AccountRef'' (PDict [])
      else if detail_type = PStr ''SalesItemLineDetail''
      then py_get2 line ''SalesItemLineDetail'' ''AccountRef'' (PDict [])
      else if detail_type = PStr ''JournalEntryLineDetail''
      then py_get2 line ''JournalEntryLineDetail'' ''AccountRef'' (PDict [])
      else Inr PNone)"

text \<open>\<^verbatim>\<open>account_ref.get(k, '') if account_ref else ''\<close>.\<close>

definition ref_field :: "'f builtins \<Rightarrow> 'f pyval \<Rightarrow> string \<Rightarrow> error + 'f pyval" where
  "ref_field B account_ref k =
     (if truthy B account_ref then py_get account_ref k (PStr []) else Inr (PStr []))"

text \<open>The dictionary \<^verbatim>\<open>line_item\<close> of one line that has a \<^verbatim>\<open>DetailType\<close>.\<close>

definition format_line :: "'f builtins \<Rightarrow> 'f pyval \<Rightarrow> error + 'f pyval" where
  "format_line B line =
     bind (py_item line ''DetailType'') (\<lambda>detail_type.
     bind (account_ref_of line detail_type) (\<lambda>account_ref.
     bind (py_get line ''Amount'' (PInt 0)) (\<lambda>a.
     bind (py_float B a) (\<lambda>amount.
     bind (py_get line ''Description'' (PStr [])) (\<lambda>description.
     bind (ref_field B account_ref ''value'') (\<lambda>account_id.
     bind (ref_field B account_ref ''name'') (\<lambda>account_name.
     bind (py_get line ''DetailType'' (PStr [])) (\<lambda>dt.
     bind (py_get line ''LineNum'' (PStr [])) (\<lambda>line_num.
     Inr (PDict [(''amount'', PFloat amount),
                 (''description'', description),
                 (''account_id'', account_id),
                 (''account_name'', account_name),
                 (''detail_type'', dt),
                 (''line_num'', line_num)]))))))))))"

text \<open>The loop \<^verbatim>\<open>for line in lines\<close>: a line without \<^verbatim>\<open>DetailType\<close> gives no item.\<close>

fun format_lines :: "'f builtins \<Rightarrow> 'f pyval list \<Rightarrow> error + 'f pyval list" where
  "format_lines B [] = Inr []"
| "format_lines B (line # lines) =
     bind (py_in ''DetailType'' line) (\<lambda>has.
     if has then bind (format_line B line) (\<lambda>item.
                 bind (format_lines B lines) (\<lambda>rest. Inr (item # rest)))
     else format_lines B lines)"

text \<open>\<^verbatim>\<open>txn['Line'] if isinstance(txn['Line'], list) else [txn['Line']]\<close>.\<close>

definition as_list :: "'f pyval \<Rightarrow> 'f pyval list" where
  "as_list v = (case v of PList xs \<Rightarrow> xs | _ \<Rightarrow> [v])"

text \<open>The fields \<^verbatim>\<open>formatted.update({...})\<close> adds for the transaction type.\<close>

definition extra_fields :: "'f builtins \<Rightarrow> 'f pyval \<Rightarrow> string \<Rightarrow> error + (string \<times> 'f pyval) list" where
  "extra_fields B txn txn_type =
     (if txn_type = ''Purchase'' then
        bind (py_get2 txn ''PaymentMethodRef'' ''name'' (PStr [])) (\<lambda>payment_method.
        bind (py_get txn ''Credit'' (PBool False)) (\<lambda>credit.
        bind (py_get2 txn ''CurrencyRef'' ''name'' (PStr ''USD'')) (\<lambda>currency.
        Inr [(''payment_method'', payment_method), (''credit'', credit),
             (''currency'', currency)])))
      else if txn_type = ''Bill'' then
        bind (py_get txn ''DueDate'' (PStr [])) (\<lambda>due_date.
        bind (py_get txn ''Balance'' (PInt 0)) (\<lambda>b.
        bind (py_float B b) (\<lambda>balance.
        bind (py_get txn ''Status'' (PStr [])) (\<lambda>status.
        Inr [(''due_date'', due_date), (''balance'', PFloat balance), (''status'', status)]))))
      else if txn_type = ''Expense'' then
        bind (py_get2 txn ''PaymentMethodRef'' ''name'' (PStr [])) (\<lambda>payment_method.
        bind (py_get txn ''CheckNum'' (PStr [])) (\<lambda>check_number.
        Inr [(''payment_method'', payment_method), (''check_number'', check_number)]))
      else if txn_type = ''JournalEntry'' then
        bind (py_get txn ''Adjustment'' (PBool False)) (\<lambda>adjustment.
        Inr [(''adjustment'', adjustment)])
      else Inr [])"

text \<open>\<^verbatim>\<open>d.update(kvs)\<close>.\<close>

fun dict_update :: "(string \<times> 'a) list \<Rightarrow> (string \<times> 'a) list \<Rightarrow> (string \<times> 'a) list" where
  "dict_update d [] = d"
| "dict_update d ((k, v) # kvs) = dict_update (dict_set d k v) kvs"

text \<open>\<^verbatim>\<open>line_items[0][k]\<close> when there is a line item, the empty string otherwise.\<close>

definition first_account :: "'f pyval list \<Rightarrow> string \<Rightarrow> error + 'f pyval" where
  "first_account line_items k =
     (case line_items of [] \<Rightarrow> Inr (PStr []) | li # _ \<Rightarrow> py_item li k)"

text \<open>
  \<^verbatim>\<open>_format_transaction(txn, txn_type)\<close>. Every exception is logged and raised again,
  so the function is its \<^verbatim>\<open>try\<close> block. The three conversions \<^verbatim>\<open>float(...)\<close> take the
  default \<^verbatim>\<open>0\<close> only when the key is absent.
\<close>

definition format_transaction :: "'f builtins \<Rightarrow> 'f pyval \<Rightarrow> string \<Rightarrow> error + 'f pyval" where
  "format_transaction B txn txn_type =
     bind (py_get txn ''Id'' PNone) (\<lambda>ident.
     bind (py_get txn ''TxnDate'' (PStr [])) (\<lambda>date.
     bind (py_get txn ''TotalAmt'' (PInt 0)) (\<lambda>total.
     bind (py_float B total) (\<lambda>amount.
     bind (or_else B (py_get txn ''PrivateNote'' (PStr []))
            (or_else B (py_get txn ''DocNumber'' (PStr [])) (Inr (PStr [])))) (\<lambda>memo.
     bind (or_else B (py_get2 txn ''VendorRef'' ''name'' (PStr []))
            (py_get2 txn ''CustomerRef'' ''name'' (PStr []))) (\<lambda>entity_name.
     bind (or_else B (py_get2 txn ''VendorRef'' ''value'' (PStr []))
            (py_get2 txn ''CustomerRef'' ''value'' (PStr []))) (\<lambda>entity_id.
     bind (py_get txn ''PaymentType'' (PStr [])) (\<lambda>payment_type.
     bind (py_get txn ''DocNumber'' (PStr [])) (\<lambda>doc_number.
     bind (py_get txn ''PrivateNote'' (PStr [])) (\<lambda>private_note.
     bind (py_get txn ''SyncToken'' (PStr [])) (\<lambda>sync_token.
     bind (py_get2 txn ''MetaData'' ''CreateTime'' (PStr [])) (\<lambda>create_time.
     bind (py_get2 txn ''MetaData'' ''LastUpdatedTime'' (PStr [])) (\<lambda>last_updated_time.
     bind (py_in ''Line'' txn) (\<lambda>has_line.
     bind (if has_line
           then bind (py_item txn ''Line'') (\<lambda>l. format_lines B (as_list l))
           else Inr []) (\<lambda>line_items.
     bind (first_account line_items ''account_id'') (\<lambda>account_id.
     bind (first_account line_items ''account_name'') (\<lambda>account_name.
     bind (extra_fields B txn txn_type) (\<lambda>extra.
     Inr (PDict (dict_update
       [(''id'', ident),
        (''type'', PStr txn_type),
        (''date'', date),
        (''amount'', PFloat amount),
        (''memo'', memo),
        (''entity_name'', entity_name),
        (''entity_id'', entity_id),
        (''payment_type'', payment_type),
        (''doc_number'', doc_number),
        (''private_note'', private_note),
        (''sync_token'', sync_token),
        (''meta_data'', PDict [(''create_time'', create_time),
                               (''last_updated_time'', last_updated_time)]),
        (''line_items'', PList line_items),
        (''account_id'', account_id),
        (''account_name'', account_name)]
       extra))))))))))))))))))))"

subsection \<open>Retrieval\<close>

text \<open>The query text of \<^verbatim>\<open>get_transactions\<close>, with the line breaks and the
  indentation of the source's triple-quoted string.\<close>

definition txn_query :: "string \<Rightarrow> string \<Rightarrow> string \<Rightarrow> string" where
  "txn_query txn_type start_date end_date =
     [CHR 0x0A] @ replicate 20 (CHR '' '') @ ''SELECT * FROM '' @ txn_type @ '' ''
     @ [CHR 0x0A] @ replicate 20 (CHR '' '') @ ''WHERE TxnDate >= ''
     @ [CHR 0x27] @ start_date @ [CHR 0x27] @ '' ''
     @ [CHR 0x0A] @ replicate 20 (CHR '' '') @ ''AND TxnDate <= ''
     @ [CHR 0x27] @ end_date @ [CHR 0x27]
     @ [CHR 0x0A] @ replicate 16 (CHR '' '')"

text \<open>The check \<^verbatim>\<open>has_matching_account\<close> over the line items of a formatted
  transaction.\<close>

fun any_matching :: "'f pyval list \<Rightarrow> error + bool" where
  "any_matching [] = Inr False"
| "any_matching (line_item # rest) =
     bind (py_get line_item ''account_name'' PNone) (\<lambda>a.
     if a = PStr ''6300 Reimbursable Expenses'' then Inr True else any_matching rest)"

definition has_matching_account :: "'f pyval \<Rightarrow> error + bool" where
  "has_matching_account formatted =
     bind (py_get formatted ''line_items'' (PList [])) (\<lambda>l.
     bind (py_iter l) any_matching)"

text \<open>
  The handler of the \<^verbatim>\<open>try\<close> block around one record: its log line reads
  \<^verbatim>\<open>txn.get('Id')\<close>, which raises in its turn when the record is no object.
\<close>

definition format_error_handler :: "'f pyval \<Rightarrow> error + unit" where
  "format_error_handler txn = bind (py_get txn ''Id'' PNone) (\<lambda>ident. Inr ())"

text \<open>
  The loop \<^verbatim>\<open>for txn in transactions\<close> with its own \<^verbatim>\<open>try\<close>: the state is the pair of
  the lists \<^verbatim>\<open>all_transactions\<close> and \<^verbatim>\<open>filtered_transactions\<close>. A record whose
  formatting raises is logged and skipped, and the loop goes on; when the handler itself
  raises, the exception leaves the loop, with the two lists as they are then.
\<close>

fun records_loop ::
  "'f builtins \<Rightarrow> string \<Rightarrow> 'f pyval list \<Rightarrow> 'f pyval list \<times> 'f pyval list
     \<Rightarrow> (error + unit) \<times> 'f pyval list \<times> 'f pyval list" where
  "records_loop B txn_type [] acc = (Inr (), acc)"
| "records_loop B txn_type (txn # txns) (all_transactions, filtered_transactions) =
     (case format_transaction B txn txn_type of
        Inl format_error \<Rightarrow>
          (case format_error_handler txn of
             Inl e \<Rightarrow> (Inl e, all_transactions, filtered_transactions)
           | Inr u \<Rightarrow> records_loop B txn_type txns (all_transactions, filtered_transactions))
      | Inr formatted \<Rightarrow>
          (case has_matching_account formatted of
             Inr True \<Rightarrow>
               records_loop B txn_type txns
                 (all_transactions @ [formatted], filtered_transactions @ [formatted])
           | Inr False \<Rightarrow>
               records_loop B txn_type txns
                 (all_transactions @ [formatted], filtered_transactions)
           | Inl format_error \<Rightarrow>
               (case format_error_handler txn of
                  Inl e \<Rightarrow> (Inl e, all_transactions @ [formatted], filtered_transactions)
                | Inr u \<Rightarrow>
                    records_loop B txn_type txns
                      (all_transactions @ [formatted], filtered_transactions))))"

text \<open>What one kind's \<^verbatim>\<open>try\<close> block reads from the answer: the transactions to format,
  \<open>None\<close> when the answer has none of this kind. \<^verbatim>\<open>len(transactions)\<close> and the loop need
  a list, a dictionary or a string.\<close>

definition transactions_of :: "'f pyval \<Rightarrow> string \<Rightarrow> error + 'f pyval list option" where
  "transactions_of response txn_type =
     bind (response_list response txn_type) (\<lambda>r.
     case r of
       None \<Rightarrow> Inr None
     | Some transactions \<Rightarrow> bind (py_iter transactions) (\<lambda>txns. Inr (Some txns)))"

text \<open>The loop over the four kinds: a kind whose query or answer raises is logged and
  skipped, and so is the rest of a kind when the loop over its records raises; the
  records collected until then stay in the two lists.\<close>

fun kinds_loop ::
  "'f builtins \<Rightarrow> ('f, 'w) env \<Rightarrow> string \<Rightarrow> string \<Rightarrow> string list
     \<Rightarrow> 'f pyval list \<times> 'f pyval list \<Rightarrow> ('f, 'w) state
     \<Rightarrow> ('f pyval list \<times> 'f pyval list) \<times> ('f, 'w) state" where
  "kinds_loop B E start_date end_date [] acc s = (acc, s)"
| "kinds_loop B E start_date end_date (txn_type # rest) acc s =
     (case query_direct B E (txn_query txn_type start_date end_date) s of
        (Inl e, s') \<Rightarrow> kinds_loop B E start_date end_date rest acc s'
      | (Inr response, s') \<Rightarrow>
          (case transactions_of response txn_type of
             Inr (Some txns) \<Rightarrow>
               kinds_loop B E start_date end_date rest
                 (snd (records_loop B txn_type txns acc)) s'
           | _ \<Rightarrow> kinds_loop B E start_date end_date rest acc s'))"

text \<open>
  \<^verbatim>\<open>a < b\<close> on two sort keys: strings compare lexicographically, numbers by value,
  lists element-wise; every other pair raises \<^verbatim>\<open>TypeError\<close>.
\<close>

definition is_number :: "'f pyval \<Rightarrow> bool" where
  "is_number v = (case v of PBool b \<Rightarrow> True | PInt i \<Rightarrow> True | PFloat x \<Rightarrow> True | _ \<Rightarrow> False)"

definition py_less :: "'f builtins \<Rightarrow> 'f pyval \<Rightarrow> 'f pyval \<Rightarrow> error + bool" where
  "py_less B a b =
     (case (a, b) of
        (PStr x, PStr y) \<Rightarrow> Inr (x < y)
      | (PList xs, PList ys) \<Rightarrow> list_less B xs ys
      | _ \<Rightarrow> if is_number a \<and> is_number b then Inr (num_less B a b) else Inl TypeError)"

text \<open>
  \<^verbatim>\<open>xs.sort(key=..., reverse=True)\<close> on the pairs of a key and an element: a stable
  sort into descending order, as insertion from the left. An element goes in front of
  the first one with a smaller key, so that equal keys keep their order. The sort raises
  when a comparison does.
\<close>

fun insert_desc ::
  "'f builtins \<Rightarrow> 'f pyval \<times> 'a \<Rightarrow> ('f pyval \<times> 'a) list \<Rightarrow> error + ('f pyval \<times> 'a) list" where
  "insert_desc B x [] = Inr [x]"
| "insert_desc B x (y # ys) =
     bind (py_less B (fst y) (fst x)) (\<lambda>lt.
     if lt then Inr (x # y # ys)
     else bind (insert_desc B x ys) (\<lambda>r. Inr (y # r)))"

fun sort_desc ::
  "'f builtins \<Rightarrow> ('f pyval \<times> 'a) list \<Rightarrow> ('f pyval \<times> 'a) list \<Rightarrow> error + ('f pyval \<times> 'a) list" where
  "sort_desc B acc [] = Inr acc"
| "sort_desc B acc (x # xs) = bind (insert_desc B x acc) (\<lambda>acc'. sort_desc B acc' xs)"

text \<open>The keys \<^verbatim>\<open>x['date']\<close> of the elements, computed before any comparison.\<close>

fun with_date_keys :: "'f pyval list \<Rightarrow> error + ('f pyval \<times> 'f pyval) list" where
  "with_date_keys [] = Inr []"
| "with_date_keys (x # xs) =
     bind (py_item x ''date'') (\<lambda>k.
     bind (with_date_keys xs) (\<lambda>r. Inr ((k, x) # r)))"

definition sort_by_date_desc :: "'f builtins \<Rightarrow> 'f pyval list \<Rightarrow> error + 'f pyval list" where
  "sort_by_date_desc B xs =
     bind (with_date_keys xs) (\<lambda>kxs.
     bind (sort_desc B [] kxs) (\<lambda>r. Inr (map snd r)))"

text \<open>The transaction the last handler of \<^verbatim>\<open>get_transactions\<close> returns.\<close>

definition dummy_transaction :: "'f builtins \<Rightarrow> string \<Rightarrow> 'f pyval" where
  "dummy_transaction B now =
     PDict [(''id'', PStr ''test123''),
            (''type'', PStr ''Purchase''),
            (''date'', PStr now),
            (''amount'', PFloat (float_of_int B 100)),
            (''memo'', PStr ''Test transaction''),
            (''entity_name'', PStr ''Test Vendor''),
            (''account_name'', PStr ''6300 Reimbursable Expenses'')]"

definition transaction_types :: "string list" where
  "transaction_types = [''Purchase'', ''Bill'', ''Expense'', ''JournalEntry'']"

text \<open>
  The outer \<^verbatim>\<open>try\<close> block of \<^verbatim>\<open>get_transactions\<close>: the four queries, then the sort of
  the filtered transactions by date, newest first. The queries and the records have
  handlers of their own, so what can raise here is the sort.
\<close>

definition get_transactions_try ::
  "'f builtins \<Rightarrow> ('f, 'w) env \<Rightarrow> string \<Rightarrow> string \<Rightarrow> ('f pyval list, 'f, 'w) action" where
  "get_transactions_try B E start_date end_date s =
     (case kinds_loop B E start_date end_date transaction_types ([], []) s of
        ((all_transactions, filtered_transactions), s') \<Rightarrow>
          (case sort_by_date_desc B filtered_transactions of
             Inl e \<Rightarrow> (Inl e, s')
           | Inr newest_first \<Rightarrow>
               (Inr (if length newest_first = 0 then all_transactions else newest_first),
                s')))"

text \<open>\<^verbatim>\<open>if not d: d = ...\<close>: a date that is \<^verbatim>\<open>None\<close> or empty takes the default.\<close>

definition date_or :: "string option \<Rightarrow> string \<Rightarrow> string" where
  "date_or d dflt = (case d of None \<Rightarrow> dflt | Some x \<Rightarrow> if x = [] then dflt else x)"

text \<open>
  \<^verbatim>\<open>get_transactions(start_date, end_date)\<close>: a missing start is 100 days back, a
  missing end is today. An exception of the outer \<^verbatim>\<open>try\<close> block is logged and answered
  with the list of the one dummy transaction, dated today.
\<close>

definition get_transactions ::
  "'f builtins \<Rightarrow> ('f, 'w) env \<Rightarrow> string option \<Rightarrow> string option \<Rightarrow> ('f, 'w) state
     \<Rightarrow> 'f pyval list \<times> ('f, 'w) state" where
  "get_transactions B E start_date end_date s =
     (case get_transactions_try B E (date_or start_date (days_ago_100 E (world s)))
             (date_or end_date (today E (world s))) s of
        (Inr result, s') \<Rightarrow> (result, s')
      | (Inl e, s') \<Rightarrow> ([dummy_transaction B (today E (world s'))], s'))"

section \<open>Resolution of customers and items\<close>

text \<open>\<^verbatim>\<open>get_customer_id(customer_name)\<close>: the id of the first customer of the answer,
  \<^verbatim>\<open>None\<close> when there is none and whenever anything raises.\<close>

definition customer_id_of :: "'f builtins \<Rightarrow> 'f pyval \<Rightarrow> error + 'f pyval" where
  "customer_id_of B response =
     bind (response_list response ''Customer'') (\<lambda>r.
     case r of
       None \<Rightarrow> Inr PNone
     | Some customers \<Rightarrow>
         if truthy B customers
         then bind (py_first customers) (\<lambda>c. py_item c ''Id'')
         else Inr PNone)"

definition get_customer_id ::
  "'f builtins \<Rightarrow> ('f, 'w) env \<Rightarrow> string \<Rightarrow> ('f, 'w) state \<Rightarrow> 'f pyval \<times> ('f, 'w) state" where
  "get_customer_id B E customer_name s =
     (case query_direct B E
             (''SELECT Id FROM Customer WHERE DisplayName = '' @ [CHR 0x27] @ customer_name
              @ [CHR 0x27]) s of
        (Inl e, s') \<Rightarrow> (PNone, s')
      | (Inr response, s') \<Rightarrow>
          ((case customer_id_of B response of Inl e \<Rightarrow> PNone | Inr v \<Rightarrow> v), s'))"

text \<open>The table of \<^verbatim>\<open>_map_item_name\<close>, from the names of this system to the item names
  of the accounting service.\<close>

definition item_mapping :: "(string \<times> string) list" where
  "item_mapping =
     [(''Management Fees'', ''Management Fee''),
      (''4100 - Rent Income'', ''Sales''),
      (''4440 - Application Fee Income'', ''Application Fee''),
      (''General Labor: General Labor'', ''General Labor''),
      (''Placement Fees'', ''Commission''),
      (''Commissions/Placement Fees'', ''Commission''),
      (''4460 - Late Fee'', ''Late Fee''),
      (''Supplies'', ''Sales''),
      (''6175 - Garbage and Recycling'', ''Sales''),
      (''6040 - Pest Management'', ''Pest Control Contractors''),
      (''6101 - Legal Fees'', ''Legal Services''),
      (''6141 - Painting'', ''Painting supplies''),
      (''2120 - Clearing Account'', ''Sales'')]"

text \<open>\<^verbatim>\<open>_map_item_name(original_name)\<close>: \<^verbatim>\<open>item_mapping.get(original_name, original_name)\<close>.\<close>

definition map_item_name :: "string \<Rightarrow> string" where
  "map_item_name original_name =
     (case map_of item_mapping original_name of None \<Rightarrow> original_name | Some n \<Rightarrow> n)"

definition billable_types :: "'f pyval list" where
  "billable_types = [PStr ''Service'', PStr ''Inventory'', PStr ''NonInventory'']"

text \<open>The entry \<^verbatim>\<open>f"{item['Name']} ({item.get('Type', 'Unknown')})"\<close> of the list of
  available items, for each item of the answer.\<close>

fun available_items :: "'f builtins \<Rightarrow> 'f pyval list \<Rightarrow> error + string list" where
  "available_items B [] = Inr []"
| "available_items B (item # rest) =
     bind (py_item item ''Name'') (\<lambda>n.
     bind (py_get item ''Type'' (PStr ''Unknown'')) (\<lambda>t.
     bind (available_items B rest) (\<lambda>r.
     Inr ((str_of B n @ '' ('' @ str_of B t @ '')'') # r))))"

text \<open>The last part of \<^verbatim>\<open>get_item_id\<close>, reached when the exact name gave no item: the
  billable items are listed into the error; \<^verbatim>\<open>None\<close> when even that answer has none.\<close>

definition item_not_found ::
  "'f builtins \<Rightarrow> ('f, 'w) env \<Rightarrow> string \<Rightarrow> ('f pyval, 'f, 'w) action" where
  "item_not_found B E mapped_name s =
     (case query_direct B E
             ''SELECT Name, Type FROM Item WHERE Type IN ('Service', 'Inventory', 'NonInventory')''
             s of
        (Inl e, s') \<Rightarrow> (Inl e, s')
      | (Inr response, s') \<Rightarrow>
          (bind (response_list response ''Item'') (\<lambda>r.
           case r of
             None \<Rightarrow> Inr PNone
           | Some l \<Rightarrow>
               bind (py_iter l) (\<lambda>its.
               bind (available_items B its) (\<lambda>names.
               Inl (Exception (''Item '' @ [CHR 0x27] @ mapped_name @ [CHR 0x27]
                               @ '' not found in QuickBooks. Available items are: ''
                               @ join '', '' names))))), s'))"

text \<open>The branch of \<^verbatim>\<open>get_item_id\<close> for an exact match that is not billable: the first
  billable item whose name contains the mapped name, or the category error.\<close>

definition item_like ::
  "'f builtins \<Rightarrow> ('f, 'w) env \<Rightarrow> string \<Rightarrow> ('f pyval, 'f, 'w) action" where
  "item_like B E mapped_name s =
     (case query_direct B E
             (''SELECT Id, Name, Type FROM Item WHERE Type IN ('Service', 'Inventory', 'NonInventory') AND Name LIKE ''
              @ [CHR 0x27] @ ''%'' @ mapped_name @ ''%'' @ [CHR 0x27]) s of
        (Inl e, s') \<Rightarrow> (Inl e, s')
      | (Inr response, s') \<Rightarrow>
          (bind (response_list response ''Item'') (\<lambda>r.
           let category_error =
                 Inl (Exception (''Item '' @ [CHR 0x27] @ mapped_name @ [CHR 0x27]
                        @ '' is set up as a category in QuickBooks. ''
                        @ ''Please create it as a Service, Inventory, or NonInventory item.''))
           in case r of
                None \<Rightarrow> category_error
              | Some its \<Rightarrow>
                  if truthy B its
                  then bind (py_first its) (\<lambda>it. py_item it ''Id'')
                  else category_error), s'))"

text \<open>
  \<^verbatim>\<open>get_item_id(item_name)\<close>: the name goes through \<^verbatim>\<open>_map_item_name\<close> first and only
  the mapped name is used after that. Every exception is logged and raised again.
\<close>

definition get_item_id ::
  "'f builtins \<Rightarrow> ('f, 'w) env \<Rightarrow> string \<Rightarrow> ('f pyval, 'f, 'w) action" where
  "get_item_id B E item_name s =
     (let mapped_name = map_item_name item_name
      in case query_direct B E
                (''SELECT Id, Type FROM Item WHERE Name = '' @ [CHR 0x27] @ mapped_name
                 @ [CHR 0x27]) s of
           (Inl e, s') \<Rightarrow> (Inl e, s')
         | (Inr response, s') \<Rightarrow>
             (case response_list response ''Item'' of
                Inl e \<Rightarrow> (Inl e, s')
              | Inr None \<Rightarrow> item_not_found B E mapped_name s'
              | Inr (Some its) \<Rightarrow>
                  if \<not> truthy B its then item_not_found B E mapped_name s'
                  else (case py_first its of
                          Inl e \<Rightarrow> (Inl e, s')
                        | Inr it \<Rightarrow>
                            (case py_get it ''Type'' PNone of
                               Inl e \<Rightarrow> (Inl e, s')
                             | Inr t \<Rightarrow>
                                 if t \<notin> set billable_types then item_like B E mapped_name s'
                                 else (py_item it ''Id'', s')))))"

section \<open>Invoices\<close>

text \<open>
  An invoice line request, with the fields of the docstring of \<^verbatim>\<open>create_invoice\<close>.
  \<open>None\<close> is an absent key; the three numbers are values, \<^verbatim>\<open>None\<close> among them.
\<close>

record 'f invoice_item =
  Customer :: "string option"
  InvoiceDate :: "string option"
  DueDate :: "string option"
  Item :: "string option"
  Description :: "string option"
  Quantity :: "'f pyval option"
  Rate :: "'f pyval option"
  Amount :: "'f pyval option"
  ServiceDate :: "string option"

text \<open>\<^verbatim>\<open>item[k]\<close> on a request.\<close>

definition required :: "string \<Rightarrow> 'a option \<Rightarrow> error + 'a" where
  "required k v = (case v of None \<Rightarrow> Inl (KeyError k) | Some x \<Rightarrow> Inr x)"

text \<open>\<^verbatim>\<open>get_property_address(item)\<close>: the description up to \<^verbatim>\<open>Management Fees\<close> when it
  has that phrase, up to the first hyphen otherwise, stripped.\<close>

definition get_property_address :: "('f, 'z) invoice_item_scheme \<Rightarrow> string" where
  "get_property_address item =
     (let desc = (case Description item of None \<Rightarrow> [] | Some d \<Rightarrow> d)
      in strip (if str_contains ''Management Fees'' desc
                then before_first ''Management Fees'' desc
                else before_first ''-'' desc))"

text \<open>\<^verbatim>\<open>x.get('ServiceDate') or x.get('InvoiceDate', '')\<close>.\<close>

definition sort_date :: "('f, 'z) invoice_item_scheme \<Rightarrow> string" where
  "sort_date x =
     (case ServiceDate x of
        Some d \<Rightarrow> if d \<noteq> [] then d else (case InvoiceDate x of None \<Rightarrow> [] | Some i \<Rightarrow> i)
      | None \<Rightarrow> (case InvoiceDate x of None \<Rightarrow> [] | Some i \<Rightarrow> i))"

text \<open>The key of \<^verbatim>\<open>invoice_items.sort\<close>: a pair, compared lexicographically.\<close>

definition invoice_key :: "('f, 'z) invoice_item_scheme \<Rightarrow> string \<times> string" where
  "invoice_key x = (get_property_address x, sort_date x)"

text \<open>The sorted copy \<^verbatim>\<open>invoice_items\<close>: Python's sort is stable.\<close>

definition invoice_items :: "'f invoice_item list \<Rightarrow> 'f invoice_item list" where
  "invoice_items items = sort_key invoice_key items"

text \<open>
  The dictionary \<^verbatim>\<open>customer_invoices\<close>, filled in the order of the sorted items: a new
  customer is added at the end, an item goes to the end of its customer's list.
\<close>

fun group_items ::
  "'f invoice_item list \<Rightarrow> (string \<times> 'f invoice_item list) list
     \<Rightarrow> error + (string \<times> 'f invoice_item list) list" where
  "group_items [] acc = Inr acc"
| "group_items (item # rest) acc =
     bind (required ''Customer'' (Customer item)) (\<lambda>customer.
     group_items rest
       (case map_of acc customer of
          None \<Rightarrow> acc @ [(customer, [item])]
        | Some l \<Rightarrow> dict_set acc customer (l @ [item])))"

definition customer_invoices ::
  "'f invoice_item list \<Rightarrow> error + (string \<times> 'f invoice_item list) list" where
  "customer_invoices items = group_items (invoice_items items) []"

text \<open>\<^verbatim>\<open>item.get('ServiceDate') or item.get('InvoiceDate')\<close>.\<close>

definition service_date :: "('f, 'z) invoice_item_scheme \<Rightarrow> 'f pyval" where
  "service_date item =
     (case ServiceDate item of
        Some d \<Rightarrow> if d \<noteq> [] then PStr d
                  else (case InvoiceDate item of None \<Rightarrow> PNone | Some i \<Rightarrow> PStr i)
      | None \<Rightarrow> (case InvoiceDate item of None \<Rightarrow> PNone | Some i \<Rightarrow> PStr i))"

text \<open>The quantity and the unit price of a line: a management fee is one unit at the
  amount.\<close>

definition qty_and_price ::
  "'f builtins \<Rightarrow> string \<Rightarrow> 'f invoice_item \<Rightarrow> error + string \<times> string" where
  "qty_and_price B mapped_item_name item =
     (if str_contains ''Management Fee'' mapped_item_name
      then bind (required ''Amount'' (Amount item)) (\<lambda>a. Inr (''1'', str_of B a))
      else bind (required ''Quantity'' (Quantity item)) (\<lambda>q.
           bind (required ''Rate'' (Rate item)) (\<lambda>r.
           bind (if r \<noteq> PNone then Inr (str_of B r)
                 else bind (required ''Amount'' (Amount item)) (\<lambda>a. Inr (str_of B a))) (\<lambda>unit_price.
           Inr (if q \<noteq> PNone then str_of B q else ''1'', unit_price)))))"

text \<open>One line of an invoice: the item is resolved by a query of its own.\<close>

definition invoice_line ::
  "'f builtins \<Rightarrow> ('f, 'w) env \<Rightarrow> 'f invoice_item \<Rightarrow> ('f pyval, 'f, 'w) action" where
  "invoice_line B E item s =
     (case required ''Item'' (Item item) of
        Inl e \<Rightarrow> (Inl e, s)
      | Inr item_name \<Rightarrow>
          (let mapped_item_name = map_item_name item_name
           in case get_item_id B E item_name s of
                (Inl e, s') \<Rightarrow> (Inl e, s')
              | (Inr item_id, s') \<Rightarrow>
                  if \<not> truthy B item_id
                  then (Inl (Exception (''Item '' @ [CHR 0x27] @ mapped_item_name @ [CHR 0x27]
                                        @ '' (originally '' @ [CHR 0x27] @ item_name
                                        @ [CHR 0x27] @ '') not found in QuickBooks'')), s')
                  else
                    (bind (qty_and_price B mapped_item_name item) (\<lambda>(qty, unit_price).
                     bind (required ''Amount'' (Amount item)) (\<lambda>amount.
                     bind (required ''Description'' (Description item)) (\<lambda>description.
                     Inr (PDict
                       [(''DetailType'', PStr ''SalesItemLineDetail''),
                        (''Amount'', PStr (str_of B amount)),
                        (''Description'', PStr description),
                        (''SalesItemLineDetail'', PDict
                           [(''ItemRef'', PDict [(''value'', item_id),
                                                 (''name'', PStr mapped_item_name)]),
                            (''Qty'', PStr qty),
                            (''UnitPrice'', PStr unit_price),
                            (''ServiceDate'', service_date item)])])))), s')))"

text \<open>The loop \<^verbatim>\<open>for item in customer_items\<close>: the first line that raises ends it.\<close>

fun invoice_lines ::
  "'f builtins \<Rightarrow> ('f, 'w) env \<Rightarrow> 'f invoice_item list \<Rightarrow> ('f pyval list, 'f, 'w) action" where
  "invoice_lines B E [] s = (Inr [], s)"
| "invoice_lines B E (item # rest) s =
     (case invoice_line B E item s of
        (Inl e, s') \<Rightarrow> (Inl e, s')
      | (Inr l, s') \<Rightarrow>
          (case invoice_lines B E rest s' of
             (Inl e, s'') \<Rightarrow> (Inl e, s'')
           | (Inr ls, s'') \<Rightarrow> (Inr (l # ls), s'')))"

text \<open>The document \<^verbatim>\<open>invoice_data\<close> of one customer.\<close>

definition invoice_data ::
  "('f, 'w) env \<Rightarrow> 'w \<Rightarrow> string \<Rightarrow> 'f pyval \<Rightarrow> 'f invoice_item list \<Rightarrow> 'f pyval list
     \<Rightarrow> error + 'f pyval" where
  "invoice_data E w customer customer_id customer_items lines =
     (case customer_items of
        [] \<Rightarrow> Inl IndexError
      | first # _ \<Rightarrow>
          bind (required ''DueDate'' (DueDate first)) (\<lambda>due_date.
          bind (required ''InvoiceDate'' (InvoiceDate first)) (\<lambda>invoice_date.
          Inr (PDict
            [(''Line'', PList lines),
             (''CustomerRef'', PDict [(''value'', customer_id), (''name'', PStr customer)]),
             (''TxnDate'', PStr (today E w)),
             (''DueDate'', PStr due_date),
             (''PrivateNote'', PStr (''Created via BuildingBlocks on '' @ today E w
                                     @ '' for service period '' @ invoice_date)),
             (''DocNumber'', PStr (''BB-'' @ timestamp E w)),
             (''GlobalTaxCalculation'', PStr ''NotApplicable''),
             (''CurrencyRef'', PDict [(''value'', PStr ''USD''),
                                      (''name'', PStr ''United States Dollar'')])]))))"

text \<open>What is made of the answer to the submission: the invoice of the answer with its
  address and its customer added.\<close>

definition invoice_of_response :: "'f builtins \<Rightarrow> string \<Rightarrow> 'f pyval \<Rightarrow> error + 'f pyval" where
  "invoice_of_response B customer response =
     bind (py_in ''Invoice'' response) (\<lambda>has.
     if \<not> has then Inl (Exception ''Invalid response from QuickBooks API'')
     else bind (py_item response ''Invoice'') (\<lambda>invoice.
          bind (py_item invoice ''Id'') (\<lambda>ident.
          case invoice of
            PDict kvs \<Rightarrow>
              Inr (PDict (dict_set
                     (dict_set kvs ''QuickBooksUrl''
                        (PStr (''https://qbo.intuit.com/app/invoice?txnId='' @ str_of B ident)))
                     ''Customer'' (PStr customer)))
          | _ \<Rightarrow> Inl TypeError)))"

text \<open>The body of the loop over the customers: the customer is resolved, then each
  line, then the document is submitted with one POST.\<close>

definition customer_invoice ::
  "'f builtins \<Rightarrow> ('f, 'w) env \<Rightarrow> string \<Rightarrow> 'f invoice_item list \<Rightarrow> ('f pyval, 'f, 'w) action" where
  "customer_invoice B E customer customer_items s =
     (case get_customer_id B E customer s of
        (customer_id, s1) \<Rightarrow>
          if \<not> truthy B customer_id
          then (Inl (Exception (''Customer '' @ [CHR 0x27] @ customer @ [CHR 0x27]
                                @ '' not found in QuickBooks'')), s1)
          else (case invoice_lines B E customer_items s1 of
                  (Inl e, s2) \<Rightarrow> (Inl e, s2)
                | (Inr lines, s2) \<Rightarrow>
                    (case invoice_data E (world s2) customer customer_id customer_items lines of
                       Inl e \<Rightarrow> (Inl e, s2)
                     | Inr data \<Rightarrow>
                         (case make_request B E ''invoice'' ''POST'' None (Some data) s2 of
                            (Inl e, s3) \<Rightarrow> (Inl e, s3)
                          | (Inr response, s3) \<Rightarrow>
                              (invoice_of_response B customer response, s3)))))"

text \<open>
  The loop \<^verbatim>\<open>for customer, customer_items in customer_invoices.items()\<close>: the invoices
  made so far are in \<open>results\<close>. An exception of one customer raises out of the loop.
\<close>

fun invoices_loop ::
  "'f builtins \<Rightarrow> ('f, 'w) env \<Rightarrow> (string \<times> 'f invoice_item list) list \<Rightarrow> 'f pyval list
     \<Rightarrow> ('f pyval list, 'f, 'w) action" where
  "invoices_loop B E [] results s = (Inr results, s)"
| "invoices_loop B E ((customer, customer_items) # rest) results s =
     (case customer_invoice B E customer customer_items s of
        (Inl e, s') \<Rightarrow> (Inl e, s')
      | (Inr invoice, s') \<Rightarrow> invoices_loop B E rest (results @ [invoice]) s')"

text \<open>\<^verbatim>\<open>results[0] if len(results) == 1 else results\<close>.\<close>

datatype 'f invoice_result = One "'f pyval" | Several "'f pyval list"

definition result_of :: "'f pyval list \<Rightarrow> 'f invoice_result" where
  "result_of results = (case results of [r] \<Rightarrow> One r | _ \<Rightarrow> Several results)"

text \<open>
  \<^verbatim>\<open>create_invoice(items)\<close>. The \<^verbatim>\<open>try\<close> block prints the exception and raises it again.
\<close>

definition create_invoice ::
  "'f builtins \<Rightarrow> ('f, 'w) env \<Rightarrow> 'f invoice_item list \<Rightarrow> ('f invoice_result, 'f, 'w) action" where
  "create_invoice B E items s =
     (if items = [] then (Inl (ValueError ''No items provided for invoice creation''), s)
      else (case customer_invoices items of
              Inl e \<Rightarrow> (Inl e, s)
            | Inr groups \<Rightarrow>
                (case invoices_loop B E groups [] s of
                   (Inl e, s') \<Rightarrow> (Inl e, s')
                 | (Inr results, s') \<Rightarrow> (Inr (result_of results), s'))))"

section \<open>A scripted remote service for the examples\<close>

text \<open>
  The examples run the clients against a remote side that answers from a script: the
  HTTP answers and the outcomes of the token endpoint are consumed in order, whatever
  the request.
\<close>

record script =
  replies :: "rat http_result list"
  tokens :: "(string + string) list"

definition scripted_env :: "(string \<Rightarrow> string option) \<Rightarrow> (rat, script) env" where
  "scripted_env vars =
     \<lparr>http = (\<lambda>rq w. case replies w of
                        [] \<Rightarrow> (RequestFailed ''connection refused'' None, w)
                      | r # rs \<Rightarrow> (r, w\<lparr>replies := rs\<rparr>)),
      oauth_refresh = (\<lambda>c w. case tokens w of
                        [] \<Rightarrow> (Inl ''connection refused'', w)
                      | t # ts \<Rightarrow> (t, w\<lparr>tokens := ts\<rparr>)),
      getenv = vars,
      today = (\<lambda>w. ''2024-06-01''),
      timestamp = (\<lambda>w. ''20240601-120000''),
      days_ago_100 = (\<lambda>w. ''2024-02-22''),
      http_error_text = (\<lambda>r. ''HTTP error''),
      json_error_text = (\<lambda>r. ''Expecting value'')\<rparr>"

definition reply :: "nat \<Rightarrow> rat pyval option \<Rightarrow> rat http_result" where
  "reply code j = Responded \<lparr>status_code = code, text_body = [], json_body = j\<rparr>"

definition no_vars :: "string \<Rightarrow> string option" where
  "no_vars = (\<lambda>k. None)"

definition cmr_session :: session where
  "cmr_session =
     \<lparr>company_prefix = ''CMR'', client_id = ''id'', client_secret = ''secret'',
      refresh_token = ''rt'', realm_id = ''42'', access_token = ''t0''\<rparr>"

definition django_session :: session where
  "django_session =
     \<lparr>company_prefix = ''DJANGO'', client_id = ''id'', client_secret = ''secret'',
      refresh_token = ''rt2'', realm_id = ''7'', access_token = ''u0''\<rparr>"

definition start :: "session \<Rightarrow> script \<Rightarrow> (rat, script) state" where
  "start c w = \<lparr>sess = c, world = w, sent = [], refreshes = 0\<rparr>"

subsection \<open>Library functions for the examples\<close>

text \<open>
  In the examples a float is the rational number it denotes. \<open>float\<close> reads plain
  decimal literals (an optional sign, digits, an optional fraction), which is what
  the examples use; the two-decimal format rounds half to even and groups the
  integer digits in threes.
\<close>

definition digit_char :: "nat \<Rightarrow> char" where
  "digit_char d = char_of (48 + d)"

fun digits :: "nat \<Rightarrow> string" where
  "digits n = (if n < 10 then [digit_char n] else digits (n div 10) @ [digit_char (n mod 10)])"

fun group3 :: "string \<Rightarrow> string" where
  "group3 s =
     (if length s \<le> 3 then s
      else group3 (take (length s - 3) s) @ '','' @ drop (length s - 3) s)"

definition round_half_even :: "rat \<Rightarrow> nat" where
  "round_half_even r =
     (let f = \<lfloor>r\<rfloor>; d = r - of_int f
      in nat (if d < 1 / 2 then f else if 1 / 2 < d then f + 1
              else if even f then f else f + 1))"

definition format_2f :: "rat \<Rightarrow> string" where
  "format_2f x =
     (let n = round_half_even (\<bar>x\<bar> * 100)
      in (if x < 0 then ''-'' else []) @ group3 (digits (n div 100)) @ ''.''
         @ [digit_char (n mod 100 div 10), digit_char (n mod 10)])"

definition is_digit :: "char \<Rightarrow> bool" where
  "is_digit c = (let n = (of_char c :: nat) in 48 \<le> n \<and> n \<le> 57)"

definition digits_value :: "string \<Rightarrow> nat" where
  "digits_value s = foldl (\<lambda>acc c. 10 * acc + (of_char c - 48)) 0 s"

definition read_unsigned :: "string \<Rightarrow> rat option" where
  "read_unsigned s =
     (let ip = takeWhile is_digit s; r = dropWhile is_digit s
      in if r = [] then (if ip = [] then None else Some (of_nat (digits_value ip)))
         else if hd r = CHR ''.'' \<and> list_all is_digit (tl r) \<and> (ip \<noteq> [] \<or> tl r \<noteq> [])
         then Some (of_nat (digits_value ip)
                    + of_nat (digits_value (tl r)) / of_nat (10 ^ length (tl r)))
         else None)"

definition read_decimal :: "string \<Rightarrow> string + rat" where
  "read_decimal s =
     (case (case s of
              [] \<Rightarrow> None
            | c # cs \<Rightarrow> if c = CHR ''-'' then map_option uminus (read_unsigned cs)
                        else if c = CHR ''+'' then read_unsigned cs
                        else read_unsigned s) of
        None \<Rightarrow> Inl (''could not convert string to float: '' @ [CHR 0x27] @ s @ [CHR 0x27])
      | Some x \<Rightarrow> Inr x)"

definition number_value :: "rat pyval \<Rightarrow> rat" where
  "number_value v =
     (case v of PBool b \<Rightarrow> (if b then 1 else 0) | PInt i \<Rightarrow> of_int i | PFloat x \<Rightarrow> x | _ \<Rightarrow> 0)"

text \<open>\<^verbatim>\<open>str(v)\<close> for the values the examples print: strings, integers, \<^verbatim>\<open>None\<close> and the
  booleans (no other value is printed there); the text of the interpreter's own
  exceptions is a fixed one for each.\<close>

definition str_simple :: "rat pyval \<Rightarrow> string" where
  "str_simple v =
     (case v of
        PStr s \<Rightarrow> s
      | PInt i \<Rightarrow> (if i < 0 then ''-'' else []) @ digits (nat \<bar>i\<bar>)
      | PNone \<Rightarrow> ''None''
      | PBool b \<Rightarrow> (if b then ''True'' else ''False'')
      | _ \<Rightarrow> ''...'')"

definition error_name :: "error \<Rightarrow> string" where
  "error_name e =
     (case e of
        KeyError k \<Rightarrow> [CHR 0x27] @ k @ [CHR 0x27]
      | IndexError \<Rightarrow> ''list index out of range''
      | TypeError \<Rightarrow> ''TypeError''
      | AttributeError \<Rightarrow> ''AttributeError''
      | OverflowError \<Rightarrow> ''int too large to convert to float''
      | _ \<Rightarrow> [])"

text \<open>\<^verbatim>\<open>urllib.parse.quote\<close> with its default safe character \<^verbatim>\<open>/\<close>: every other
  character that is no letter, digit or one of \<^verbatim>\<open>_.-~\<close> is replaced by the escaped bytes
  of its UTF-8 encoding, which are two for a code point from 128 on.\<close>

definition hex_digit :: "nat \<Rightarrow> char" where
  "hex_digit d = (if d < 10 then char_of (48 + d) else char_of (55 + d))"

definition quote_byte :: "nat \<Rightarrow> string" where
  "quote_byte b = [CHR ''%'', hex_digit (b div 16), hex_digit (b mod 16)]"

definition quote_char :: "char \<Rightarrow> string" where
  "quote_char c =
     (let n = (of_char c :: nat)
      in if (48 \<le> n \<and> n \<le> 57) \<or> (65 \<le> n \<and> n \<le> 90) \<or> (97 \<le> n \<and> n \<le> 122)
            \<or> c \<in> set ''_.-~/''
         then [c]
         else if n < 128 then quote_byte n
         else quote_byte (192 + n div 64) @ quote_byte (128 + n mod 64))"

definition quote :: "string \<Rightarrow> string" where
  "quote s = concat (map quote_char s)"

text \<open>No list is a sort key in the examples: comparing two lists is left raising.\<close>

definition example_builtins :: "rat builtins" where
  "example_builtins =
     \<lparr>float_of_str = read_decimal,
      float_of_int = of_int,
      float_truthy = (\<lambda>x. x \<noteq> 0),
      format_money = format_2f,
      str_of = str_simple,
      num_less = (\<lambda>a b. number_value a < number_value b),
      list_less = (\<lambda>xs ys. Inl TypeError),
      url_quote = quote,
      exc_text = error_name\<rparr>"

subsection \<open>Inputs of the examples\<close>

definition item_reply :: "rat pyval" where
  "item_reply =
     PDict [(''QueryResponse'',
             PDict [(''Item'', PList [PDict [(''Id'', PStr ''19''), (''Type'', PStr ''Service'')]])])]"

definition vars_no_secret :: "string \<Rightarrow> string option" where
  "vars_no_secret =
     map_of [(''QUICKBOOKS_CLIENT_ID'', ''id''), (''CMR_QB_REFRESH_TOKEN'', ''rt''),
             (''CMR_QB_REALM_ID'', ''42'')]"

definition vars_cmr :: "string \<Rightarrow> string option" where
  "vars_cmr =
     map_of [(''QUICKBOOKS_CLIENT_ID'', ''id''), (''QUICKBOOKS_CLIENT_SECRET'', ''secret''),
             (''CMR_QB_REFRESH_TOKEN'', ''rt''), (''CMR_QB_REALM_ID'', ''42'')]"

definition customer_reply :: "rat pyval" where
  "customer_reply =
     PDict [(''QueryResponse'', PDict [(''Customer'', PList [PDict [(''Id'', PStr ''7'')]])])]"

definition empty_reply :: "rat pyval" where
  "empty_reply = PDict [(''QueryResponse'', PDict [])]"

definition invoice_reply :: "rat pyval" where
  "invoice_reply = PDict [(''Invoice'', PDict [(''Id'', PStr ''101'')])]"

text \<open>Three invoice line requests, with the addresses and dates of the example of the
  specification, for two customers.\<close>

definition request_line :: "string \<Rightarrow> string \<Rightarrow> string \<Rightarrow> rat invoice_item" where
  "request_line customer description date =
     \<lparr>Customer = Some customer, InvoiceDate = Some ''2024-01-31'',
      DueDate = Some ''2024-04-30'', Item = Some ''Management Fees'',
      Description = Some description, Quantity = Some (PInt 1), Rate = Some PNone,
      Amount = Some (PInt 100), ServiceDate = Some date\<rparr>"

definition three_lines :: "rat invoice_item list" where
  "three_lines =
     [request_line ''Alpha'' ''B St Management Fees - February'' ''2024-02-01'',
      request_line ''Alpha'' ''A St - Rent'' ''2024-01-01'',
      request_line ''Beta'' ''A St Management Fees'' ''2024-03-01'']"

text \<open>
  Four invoice line requests for the sort: the three addresses and dates of the example
  of the specification for one customer, the third with no service date and the date
  as its invoice date, and a line of a second customer whose service date is empty and
  whose address ends in a no-break space.
\<close>

definition dated_line ::
  "string \<Rightarrow> string \<Rightarrow> string \<Rightarrow> string option \<Rightarrow> rat invoice_item" where
  "dated_line customer description invoice_date service =
     \<lparr>Customer = Some customer, InvoiceDate = Some invoice_date,
      DueDate = Some ''2024-04-30'', Item = Some ''Management Fees'',
      Description = Some description, Quantity = Some (PInt 1), Rate = Some PNone,
      Amount = Some (PInt 100), ServiceDate = service\<rparr>"

definition example_lines :: "rat invoice_item list" where
  "example_lines =
     [dated_line ''Alpha'' ''B St Management Fees - February'' ''2024-01-31''
        (Some ''2024-02-01''),
      dated_line ''Alpha'' ''A St - Rent'' ''2024-01-31'' (Some ''2024-01-01''),
      dated_line ''Alpha'' ''A St Management Fees'' ''2024-03-01'' None,
      dated_line ''Beta'' (''A St'' @ [CHR 0xA0] @ ''- Water'') ''2024-02-15'' (Some [])]"

text \<open>Three scripts for the invoices of \<open>three_lines\<close>: the first customer is unknown;
  the first customer is invoiced and the second is unknown; both are invoiced.\<close>

definition alpha_fails :: script where
  "alpha_fails =
     \<lparr>replies = [reply 200 (Some empty_reply), reply 200 (Some customer_reply),
                 reply 200 (Some item_reply), reply 200 (Some invoice_reply)],
      tokens = []\<rparr>"

definition beta_fails :: script where
  "beta_fails =
     \<lparr>replies = [reply 200 (Some customer_reply), reply 200 (Some item_reply),
                 reply 200 (Some item_reply), reply 200 (Some invoice_reply),
                 reply 200 (Some empty_reply)],
      tokens = []\<rparr>"

definition all_answered :: script where
  "all_answered =
     \<lparr>replies = [reply 200 (Some customer_reply), reply 200 (Some item_reply),
                 reply 200 (Some item_reply), reply 200 (Some invoice_reply),
                 reply 200 (Some customer_reply), reply 200 (Some item_reply),
                 reply 200 (Some invoice_reply)],
      tokens = []\<rparr>"

definition alpha_invoice :: "string \<Rightarrow> rat pyval" where
  "alpha_invoice customer =
     PDict [(''Id'', PStr ''101''),
            (''QuickBooksUrl'', PStr ''https://qbo.intuit.com/app/invoice?txnId=101''),
            (''Customer'', PStr customer)]"

text \<open>Transactions: one without amounts, one whose total is no number, and one whose
  date is \<^verbatim>\<open>null\<close>.\<close>

definition expense_line :: "(string \<times> rat pyval) list \<Rightarrow> rat pyval" where
  "expense_line others =
     PDict ([(''DetailType'', PStr ''AccountBasedExpenseLineDetail''),
             (''AccountBasedExpenseLineDetail'',
              PDict [(''AccountRef'',
                      PDict [(''value'', PStr ''63''),
                             (''name'', PStr ''6300 Reimbursable Expenses'')])])] @ others)"

definition purchase_a :: "rat pyval" where
  "purchase_a =
     PDict [(''Id'', PStr ''1''), (''TxnDate'', PStr ''2024-05-01''),
            (''Line'', PList [expense_line []])]"

definition purchase_bad :: "rat pyval" where
  "purchase_bad =
     PDict [(''Id'', PStr ''2''), (''TxnDate'', PStr ''2024-05-02''),
            (''TotalAmt'', PStr ''abc'')]"

definition purchase_null_date :: "rat pyval" where
  "purchase_null_date =
     PDict [(''Id'', PStr ''3''), (''TxnDate'', PNone), (''TotalAmt'', PInt 20),
            (''Line'', PList [expense_line [(''Amount'', PInt 20)]])]"

definition purchases_reply :: "rat pyval list \<Rightarrow> rat pyval" where
  "purchases_reply txns = PDict [(''QueryResponse'', PDict [(''Purchase'', PList txns)])]"

definition mixed_dates :: script where
  "mixed_dates =
     \<lparr>replies = [reply 200 (Some (purchases_reply [purchase_a, purchase_null_date])),
                 reply 200 (Some empty_reply), reply 200 (Some empty_reply),
                 reply 200 (Some empty_reply)],
      tokens = []\<rparr>"

text \<open>The aging report of the example of the specification, and a pool of two tenants
  of which the first gets that report and the second two 401 answers.\<close>

definition cell :: "string \<Rightarrow> rat pyval" where
  "cell v = PDict [(''value'', PStr v)]"

definition acme_report :: "rat pyval" where
  "acme_report =
     PDict [(''Header'', PDict [(''ReportName'', PStr ''AgedReceivables'')]),
            (''Rows'', PDict [(''Row'', PList
               [PDict [(''ColData'', PList [cell ''Acme'', cell [], cell ''$10.00''])],
                PDict [(''Summary'', PDict [(''ColData'',
                          PList [cell ''TOTAL'', cell ''0.00'', cell ''10.00''])]),
                       (''type'', PStr ''Section''),
                       (''group'', PStr ''GrandTotal'')]])])]"

definition two_tenants :: "(rat, script) pool" where
  "two_tenants =
     \<lparr>companies = [''CMR'', ''DJANGO''],
      clients = [(''CMR'', cmr_session), (''DJANGO'', django_session)],
      pool_outside =
        (\<lparr>replies = [reply 200 (Some acme_report), reply 401 None, reply 401 None],
          tokens = [Inr ''u1'']\<rparr>, [], 0)\<rparr>"

section \<open>Notions of the specification\<close>

text \<open>The exceptions the interpreter raises on a value of the wrong shape; none of them
  is an authentication error.\<close>

definition interpreter_error :: "error \<Rightarrow> bool" where
  "interpreter_error e =
     (case e of KeyError k \<Rightarrow> True | IndexError \<Rightarrow> True | TypeError \<Rightarrow> True
      | AttributeError \<Rightarrow> True | _ \<Rightarrow> False)"

subsection \<open>The aging table\<close>

text \<open>
  A row of a raw aging report whose cells are strings: its type and group, the values
  of its columns and of its summary columns (\<open>None\<close> for an absent key). The functions
  \<open>encode_\<dots>\<close> give the payload such rows come in.
\<close>

record raw_row =
  row_type :: "string option"
  row_group :: "string option"
  col_data :: "string option list option"
  summary :: "string option list option"

definition encode_col :: "string option \<Rightarrow> 'f pyval" where
  "encode_col v = PDict (case v of None \<Rightarrow> [] | Some s \<Rightarrow> [(''value'', PStr s)])"

definition encode_row :: "raw_row \<Rightarrow> 'f pyval" where
  "encode_row r =
     PDict ((case col_data r of None \<Rightarrow> []
             | Some cs \<Rightarrow> [(''ColData'', PList (map encode_col cs))])
            @ (case summary r of None \<Rightarrow> []
               | Some cs \<Rightarrow> [(''Summary'', PDict [(''ColData'', PList (map encode_col cs))])])
            @ (case row_type r of None \<Rightarrow> [] | Some t \<Rightarrow> [(''type'', PStr t)])
            @ (case row_group r of None \<Rightarrow> [] | Some g \<Rightarrow> [(''group'', PStr g)]))"

definition encode_report :: "'f pyval \<Rightarrow> 'f pyval \<Rightarrow> raw_row list \<Rightarrow> 'f pyval" where
  "encode_report header columns rows =
     PDict [(''Header'', header), (''Columns'', columns),
            (''Rows'', PDict [(''Row'', PList (map encode_row rows))])]"

text \<open>
  The table as the specification words it. A money value that is absent or empty counts
  as \<^verbatim>\<open>0.00\<close>; a value \<^verbatim>\<open>float\<close> accepts, once \<^verbatim>\<open>$\<close> and the commas are removed, is
  rendered with the currency sign, thousands separators and two decimals, and any other
  value stays as it is. The data rows are the rows with columns that are no section;
  the total is the first section row of the group \<^verbatim>\<open>GrandTotal\<close>, its summary columns
  after the first rendered the same way.
\<close>

definition render_money :: "'f builtins \<Rightarrow> string option \<Rightarrow> string" where
  "render_money B v =
     (let s = (case v of None \<Rightarrow> ''0.00'' | Some x \<Rightarrow> if x = [] then ''0.00'' else x)
      in case float_of_str B (clean_money s) of
           Inl m \<Rightarrow> s
         | Inr amount \<Rightarrow> ''$'' @ format_money B amount)"

definition is_data_row :: "raw_row \<Rightarrow> bool" where
  "is_data_row r =
     (col_data r \<noteq> None \<and> col_data r \<noteq> Some [] \<and> row_type r \<noteq> Some ''Section'')"

definition data_row :: "'f builtins \<Rightarrow> raw_row \<Rightarrow> 'f pyval list" where
  "data_row B r =
     (case col_data r of
        Some (name # amounts) \<Rightarrow>
          PStr (case name of None \<Rightarrow> [] | Some n \<Rightarrow> n)
          # map (\<lambda>v. PStr (render_money B v)) amounts
      | _ \<Rightarrow> [])"

definition is_grand_total :: "raw_row \<Rightarrow> bool" where
  "is_grand_total r = (row_type r = Some ''Section'' \<and> row_group r = Some ''GrandTotal'')"

definition summary_amounts :: "raw_row \<Rightarrow> string option list" where
  "summary_amounts r = drop 1 (case summary r of None \<Rightarrow> [] | Some cs \<Rightarrow> cs)"

definition total_row :: "'f builtins \<Rightarrow> raw_row \<Rightarrow> 'f pyval list" where
  "total_row B r = PStr ''TOTAL'' # map (\<lambda>v. PStr (render_money B v)) (summary_amounts r)"

definition aging_table :: "'f builtins \<Rightarrow> raw_row list \<Rightarrow> 'f pyval list list" where
  "aging_table B rows =
     report_headers # map (data_row B) (filter is_data_row rows)
     @ (case find is_grand_total rows of None \<Rightarrow> [] | Some r \<Rightarrow> [total_row B r])"

definition acme_rows :: "raw_row list" where
  "acme_rows =
     [\<lparr>row_type = None, row_group = None,
       col_data = Some [Some ''Acme'', Some [], Some ''$10.00''], summary = None\<rparr>,
      \<lparr>row_type = Some ''Section'', row_group = Some ''GrandTotal'', col_data = None,
       summary = Some [Some ''TOTAL'', Some ''0.00'', Some ''$10.00'']\<rparr>]"

definition unparsable_rows :: "raw_row list" where
  "unparsable_rows =
     [\<lparr>row_type = None, row_group = None,
       col_data = Some [Some ''Acme'', Some ''n/a''], summary = None\<rparr>]"

subsection \<open>The documents of an invoice run\<close>

text \<open>The distinct elements of a list, in the order of their first occurrence.\<close>

definition first_seen :: "'a list \<Rightarrow> 'a list" where
  "first_seen xs = rev (remdups (rev xs))"

text \<open>
  The grouping as the specification words it: one document for each distinct customer
  of the lines \<open>zs\<close>, in the order in which the customers first occur, each with its
  lines in the order they have in \<open>zs\<close>. \<open>documents\<close> groups the sorted lines.
\<close>

definition grouped :: "'f invoice_item list \<Rightarrow> (string \<times> 'f invoice_item list) list" where
  "grouped zs =
     map (\<lambda>c. (c, filter (\<lambda>i. Customer i = Some c) zs))
       (first_seen (List.map_filter Customer zs))"

definition documents :: "'f invoice_item list \<Rightarrow> (string \<times> 'f invoice_item list) list" where
  "documents items = grouped (invoice_items items)"

section \<open>The request executor: refresh and retry\<close>

text \<open>
  C1 (amended). When the first answer to \<^verbatim>\<open>_make_request\<close> is a 401, the token endpoint
  is asked exactly once. If the refresh fails, the call fails with the error of
  \<^verbatim>\<open>_handle_auth_error\<close> after that one request, without a retry. If the refresh
  succeeds, exactly two requests have been sent: the call, and the same call again with
  the new bearer token. Then, if the second answer is a 401 too, the call fails with
  \<^verbatim>\<open>QuickBooksAuthError("Authentication failed even after token refresh")\<close>, a fixed text
  without the tenant; if the second answer is no error status and carries JSON, the call
  returns that JSON; and if the retry gets no answer, the call fails with the error the
  handler makes of that failure.
\<close>

theorem make_request_unauthorized:
  assumes first: "http E (build_request (sess s) endpoint method params js) (world s)
                    = (Responded r1, w1)"
    and unauth: "status_code r1 = 401"
  shows "(case make_request B E endpoint method params js s of
            (res, s') \<Rightarrow>
              refreshes s' = Suc (refreshes s)
            \<and> (\<forall>msg w2. oauth_refresh E (sess s) w1 = (Inl msg, w2) \<longrightarrow>
                   sent s' = sent s @ [build_request (sess s) endpoint method params js]
                 \<and> res = Inl (handle_auth_error (sess s) msg))
            \<and> (\<forall>tok w2. oauth_refresh E (sess s) w1 = (Inr tok, w2) \<longrightarrow>
                   sent s' = sent s @ [build_request (sess s) endpoint method params js,
                                       with_token ((sess s)\<lparr>access_token := tok\<rparr>)
                                         (build_request (sess s) endpoint method params js)]
                 \<and> (\<forall>r2 w3.
                       http E (with_token ((sess s)\<lparr>access_token := tok\<rparr>)
                                 (build_request (sess s) endpoint method params js)) w2
                         = (Responded r2, w3) \<longrightarrow>
                         (status_code r2 = 401 \<longrightarrow>
                            res = Inl (QuickBooksAuthError
                                         ''Authentication failed even after token refresh''))
                       \<and> (\<forall>j. \<not> is_error_status (status_code r2) \<and> json_body r2 = Some j
                               \<longrightarrow> res = Inr j))
                 \<and> (\<forall>msg ro w3.
                       http E (with_token ((sess s)\<lparr>access_token := tok\<rparr>)
                                 (build_request (sess s) endpoint method params js)) w2
                         = (RequestFailed msg ro, w3) \<longrightarrow>
                         res = Inl (request_exception_handler B msg ro))))"
proof (cases "oauth_refresh E (sess s) w1")
  case (Pair outcome w2)
  show ?thesis
  proof (cases outcome)
    case (Inl msg)
    with Pair first unauth show ?thesis
      by (simp add: make_request_def send_def refresh_access_token_def Let_def)
  next
    case (Inr tok)
    show ?thesis
    proof (cases "http E (with_token ((sess s)\<lparr>access_token := tok\<rparr>)
                            (build_request (sess s) endpoint method params js)) w2")
      case retry: (Pair answer w3)
      with Pair Inr first unauth show ?thesis
        by (cases answer)
           (simp_all add: make_request_def send_def refresh_access_token_def
              finish_request_def is_error_status_def Let_def)
    qed
  qed
qed

text \<open>The theorem at four runs of the session of CMR: a 401 and then an answer, two
  401 in a row, a 401 followed by a refresh that fails, and a 401 followed by a retry
  that gets no answer.\<close>

theorem make_request_unauthorized_witness:
  "fst (make_request example_builtins (scripted_env no_vars) ''companyinfo/42'' ''GET'' None None
          (start cmr_session \<lparr>replies = [reply 401 None, reply 200 (Some (PDict []))],
                              tokens = [Inr ''t1'']\<rparr>))
     = Inr (PDict [])
   \<and> fst (make_request example_builtins (scripted_env no_vars) ''companyinfo/42'' ''GET'' None None
            (start cmr_session \<lparr>replies = [reply 401 None, reply 401 None],
                                tokens = [Inr ''t1'']\<rparr>))
     = Inl (QuickBooksAuthError ''Authentication failed even after token refresh'')
   \<and> fst (make_request example_builtins (scripted_env no_vars) ''companyinfo/42'' ''GET'' None None
            (start cmr_session \<lparr>replies = [reply 401 None, reply 200 (Some (PDict []))],
                                tokens = [Inl ''invalid_grant'']\<rparr>))
     = Inl (handle_auth_error cmr_session ''invalid_grant'')
   \<and> length (sent (snd (make_request example_builtins (scripted_env no_vars) ''companyinfo/42''
                          ''GET'' None None
                          (start cmr_session
                             \<lparr>replies = [reply 401 None, reply 200 (Some (PDict []))],
                              tokens = [Inl ''invalid_grant'']\<rparr>)))) = 1
   \<and> fst (make_request example_builtins (scripted_env no_vars) ''companyinfo/42'' ''GET'' None None
            (start cmr_session \<lparr>replies = [reply 401 None], tokens = [Inr ''t1'']\<rparr>))
     = Inl (Exception ''QuickBooks API request failed: connection refused'')"
  using
    make_request_unauthorized [of "scripted_env no_vars"
      "start cmr_session \<lparr>replies = [reply 401 None, reply 200 (Some (PDict []))],
                          tokens = [Inr ''t1'']\<rparr>"
      "''companyinfo/42''" "''GET''" None None
      "\<lparr>status_code = 401, text_body = [], json_body = None\<rparr>"
      "\<lparr>replies = [reply 200 (Some (PDict []))], tokens = [Inr ''t1'']\<rparr>"
      example_builtins]
    make_request_unauthorized [of "scripted_env no_vars"
      "start cmr_session \<lparr>replies = [reply 401 None, reply 401 None], tokens = [Inr ''t1'']\<rparr>"
      "''companyinfo/42''" "''GET''" None None
      "\<lparr>status_code = 401, text_body = [], json_body = None\<rparr>"
      "\<lparr>replies = [reply 401 None], tokens = [Inr ''t1'']\<rparr>"
      example_builtins]
    make_request_unauthorized [of "scripted_env no_vars"
      "start cmr_session \<lparr>replies = [reply 401 None, reply 200 (Some (PDict []))],
                          tokens = [Inl ''invalid_grant'']\<rparr>"
      "''companyinfo/42''" "''GET''" None None
      "\<lparr>status_code = 401, text_body = [], json_body = None\<rparr>"
      "\<lparr>replies = [reply 200 (Some (PDict []))], tokens = [Inl ''invalid_grant'']\<rparr>"
      example_builtins]
    make_request_unauthorized [of "scripted_env no_vars"
      "start cmr_session \<lparr>replies = [reply 401 None], tokens = [Inr ''t1'']\<rparr>"
      "''companyinfo/42''" "''GET''" None None
      "\<lparr>status_code = 401, text_body = [], json_body = None\<rparr>"
      "\<lparr>replies = [], tokens = [Inr ''t1'']\<rparr>"
      example_builtins]
  by (simp add: scripted_env_def start_def reply_def cmr_session_def is_error_status_def
        request_exception_handler_def split: prod.splits)

text \<open>
  C1 as stated fails: after two 401 answers the session of the tenant CMR gets an error
  whose text does not name the tenant.
\<close>

theorem auth_error_without_tenant:
  "fst (make_request example_builtins (scripted_env no_vars) ''companyinfo/42'' ''GET'' None None
          (start cmr_session \<lparr>replies = [reply 401 None, reply 401 None],
                              tokens = [Inr ''t1'']\<rparr>))
     = Inl (QuickBooksAuthError ''Authentication failed even after token refresh'')
   \<and> \<not> str_contains (company_prefix cmr_session)
          ''Authentication failed even after token refresh''"
  by code_simp

section \<open>Item resolution and the name mapping\<close>

lemma map_item_name_idem: "map_item_name (map_item_name n) = map_item_name n"
  by (simp add: map_item_name_def item_mapping_def)

text \<open>
  C3. Resolving a name and resolving the name it is mapped to are the same computation:
  the same result and the same requests, from any state of the session and of the
  remote side. This holds for every name, the keys of the mapping table among them,
  because no mapped name is itself a key of the table.
\<close>

theorem get_item_id_mapped:
  "get_item_id B E (map_item_name item_name) s = get_item_id B E item_name s"
  by (simp add: get_item_id_def map_item_name_idem)

theorem get_item_id_mapped_witness:
  "map_item_name ''Supplies'' = ''Sales''
   \<and> fst (get_item_id example_builtins (scripted_env no_vars) ''Supplies''
            (start cmr_session \<lparr>replies = [reply 200 (Some item_reply)], tokens = []\<rparr>))
       = Inr (PStr ''19'')
   \<and> fst (get_item_id example_builtins (scripted_env no_vars) ''Sales''
            (start cmr_session \<lparr>replies = [reply 200 (Some item_reply)], tokens = []\<rparr>))
       = Inr (PStr ''19'')"
  using get_item_id_mapped [of example_builtins "scripted_env no_vars" "''Supplies''"
      "start cmr_session \<lparr>replies = [reply 200 (Some item_reply)], tokens = []\<rparr>"]
  by code_simp

section \<open>Construction and credentials\<close>

text \<open>
  C7 (amended). The constructor reads the client id and the client secret from the two
  variables \<^verbatim>\<open>QUICKBOOKS_CLIENT_ID\<close> and \<^verbatim>\<open>QUICKBOOKS_CLIENT_SECRET\<close>, shared by all
  tenants, and the refresh token and the realm id from the variables named after the
  tenant. When any of the four is unset or empty it fails, before anything is sent, with
  the \<^verbatim>\<open>ValueError\<close> "Missing required QuickBooks credentials for" and the tenant; a
  session that is constructed holds the four values, none empty.
\<close>

theorem client_init_credentials:
  "(\<not> (present (getenv E ''QUICKBOOKS_CLIENT_ID'')
        \<and> present (getenv E ''QUICKBOOKS_CLIENT_SECRET'')
        \<and> present (getenv E (prefix @ ''_QB_REFRESH_TOKEN''))
        \<and> present (getenv E (prefix @ ''_QB_REALM_ID'')))
     \<longrightarrow> client_init E prefix out
           = (Inl (ValueError (''Missing required QuickBooks credentials for '' @ prefix)), out))
   \<and> (\<forall>c out'. client_init E prefix out = (Inr c, out') \<longrightarrow>
          getenv E ''QUICKBOOKS_CLIENT_ID'' = Some (client_id c) \<and> client_id c \<noteq> []
        \<and> getenv E ''QUICKBOOKS_CLIENT_SECRET'' = Some (client_secret c)
        \<and> client_secret c \<noteq> []
        \<and> getenv E (prefix @ ''_QB_REFRESH_TOKEN'') = Some (refresh_token c)
        \<and> refresh_token c \<noteq> []
        \<and> getenv E (prefix @ ''_QB_REALM_ID'') = Some (realm_id c) \<and> realm_id c \<noteq> []
        \<and> company_prefix c = prefix)"
  by (auto simp add: client_init_def Let_def present_def refresh_access_token_def
        split: option.splits prod.splits sum.splits if_splits)

text \<open>The theorem at a tenant with its four variables set, and at the same tenant
  without the shared client secret.\<close>

theorem client_init_credentials_witness:
  "client_init (scripted_env vars_cmr) ''CMR'' (\<lparr>replies = [], tokens = [Inr ''t1'']\<rparr>, [], 0)
     = (Inr (cmr_session\<lparr>access_token := ''t1''\<rparr>), (\<lparr>replies = [], tokens = []\<rparr>, [], 1))
   \<and> getenv (scripted_env vars_cmr) ''CMR_QB_REALM_ID'' = Some ''42''
   \<and> client_init (scripted_env vars_no_secret) ''CMR''
        (\<lparr>replies = [], tokens = [Inr ''t1'']\<rparr>, [], 0)
     = (Inl (ValueError ''Missing required QuickBooks credentials for CMR''),
        (\<lparr>replies = [], tokens = [Inr ''t1'']\<rparr>, [], 0))"
  using
    client_init_credentials [of "scripted_env vars_cmr" "''CMR''"
      "(\<lparr>replies = [], tokens = [Inr ''t1'']\<rparr>, [], 0)"]
    client_init_credentials [of "scripted_env vars_no_secret" "''CMR''"
      "(\<lparr>replies = [], tokens = [Inr ''t1'']\<rparr>, [], 0)"]
  by (simp add: client_init_def scripted_env_def vars_cmr_def vars_no_secret_def present_def
        refresh_access_token_def outside_def cmr_session_def Let_def)

text \<open>
  C7 as stated fails: with the variables of the tenant CMR set and the shared client
  secret missing, the constructor fails, and its error names the tenant, not the
  absent variable.
\<close>

theorem missing_secret_not_named:
  "client_init (scripted_env vars_no_secret) ''CMR''
     (\<lparr>replies = [], tokens = [Inr ''t1'']\<rparr>, [], 0)
     = (Inl (ValueError ''Missing required QuickBooks credentials for CMR''),
        (\<lparr>replies = [], tokens = [Inr ''t1'']\<rparr>, [], 0))
   \<and> \<not> str_contains ''QUICKBOOKS_CLIENT_SECRET''
          ''Missing required QuickBooks credentials for CMR''"
  by code_simp

section \<open>Facts about the error values and the dictionaries\<close>

lemma bind_Inr [simp]: "bind (Inr x) f = f x"
  by (simp add: bind_def)

lemma bind_Inl [simp]: "bind (Inl e) f = Inl e"
  by (simp add: bind_def)

lemma bind_eq_Inl: "bind m f = Inl e \<Longrightarrow> m = Inl e \<or> (\<exists>x. m = Inr x \<and> f x = Inl e)"
  by (cases m) auto

lemma bind_eq_Inr: "bind m f = Inr y \<Longrightarrow> \<exists>x. m = Inr x \<and> f x = Inr y"
  by (cases m) auto

lemma py_get_error: "py_get v k d = Inl e \<Longrightarrow> interpreter_error e"
  by (cases v) (auto simp: interpreter_error_def)

lemma py_in_error: "py_in k v = Inl e \<Longrightarrow> interpreter_error e"
  by (cases v) (auto simp: interpreter_error_def)

lemma py_item_error: "py_item v k = Inl e \<Longrightarrow> interpreter_error e"
  by (cases v) (auto simp: interpreter_error_def split: option.splits)

lemma py_iter_error: "py_iter v = Inl e \<Longrightarrow> interpreter_error e"
  by (cases v) (auto simp: interpreter_error_def)

lemma py_rest_error: "py_rest v = Inl e \<Longrightarrow> interpreter_error e"
  by (cases v) (auto simp: interpreter_error_def)

lemma money_cell_error: "money_cell B v = Inl e \<Longrightarrow> interpreter_error e"
  by (cases v) (auto simp: interpreter_error_def money_cell_def split: sum.splits)

lemmas value_errors =
  py_get_error py_in_error py_item_error py_iter_error py_rest_error money_cell_error

lemma map_of_dict_set:
  "map_of (dict_set d k v) k' = (if k' = k then Some v else map_of d k')"
  by (induction d) auto

lemma map_of_dict_update:
  "k \<notin> fst ` set kvs \<Longrightarrow> map_of (dict_update d kvs) k = map_of d k"
  by (induction kvs arbitrary: d) (auto simp: map_of_dict_set)

lemma dict_set_map:
  "distinct cs \<Longrightarrow> c \<in> set cs \<Longrightarrow>
   dict_set (map (\<lambda>k. (k, f k)) cs) c v = map (\<lambda>k. (k, if k = c then v else f k)) cs"
  by (induction cs) auto

section \<open>The aggregate report and authentication failures\<close>

text \<open>The formatter raises nothing but the interpreter's own exceptions.\<close>

lemma format_cols_error: "format_cols B i cols = Inl e \<Longrightarrow> interpreter_error e"
proof (induction cols arbitrary: i)
  case Nil
  then show ?case by simp
next
  case (Cons c cols)
  then show ?case
    by (auto dest!: bind_eq_Inl dest: value_errors split: if_splits)
qed

lemma format_total_cols_error: "format_total_cols B cols = Inl e \<Longrightarrow> interpreter_error e"
proof (induction cols)
  case Nil
  then show ?case by simp
next
  case (Cons c cols)
  then show ?case
    by (auto dest!: bind_eq_Inl dest: value_errors split: if_splits)
qed

lemma format_rows_error: "format_rows B rows = Inl e \<Longrightarrow> interpreter_error e"
proof (induction rows)
  case Nil
  then show ?case by simp
next
  case (Cons r rows)
  then show ?case
    by (auto dest!: bind_eq_Inl dest: value_errors format_cols_error split: if_splits)
qed

lemma total_rows_error: "total_rows B rows = Inl e \<Longrightarrow> interpreter_error e"
proof (induction rows)
  case Nil
  then show ?case by simp
next
  case (Cons r rows)
  then show ?case
    by (auto dest!: bind_eq_Inl dest: value_errors format_total_cols_error split: if_splits)
qed

lemma format_ar_report_error: "format_ar_report B report = Inl e \<Longrightarrow> interpreter_error e"
  unfolding format_ar_report_def
  by (auto dest!: bind_eq_Inl dest: value_errors format_rows_error total_rows_error
        split: if_splits)

lemma aging_loop_auth_errors:
  "auth_errors (fst (aging_loop B E cs acc p)) = auth_errors acc"
proof (induction cs arbitrary: acc p)
  case Nil
  then show ?case by simp
next
  case (Cons c cs)
  show ?case
    by (auto simp: Cons.IH interpreter_error_def
          split: option.splits prod.splits sum.splits error.splits
          dest: format_ar_report_error)
qed

text \<open>
  The handler for \<^verbatim>\<open>QuickBooksAuthError\<close> in \<^verbatim>\<open>MultiTenantQB.get_ar_aging\<close> is never
  reached, whatever the tenants and the remote side: the client's \<^verbatim>\<open>get_ar_aging\<close> has
  caught the error already. The map \<^verbatim>\<open>auth_errors\<close> of the result is always empty.
\<close>

lemma auth_errors_always_empty:
  "auth_errors (fst (MultiTenantQB_get_ar_aging B E cs p)) = []"
  by (simp add: MultiTenantQB_get_ar_aging_def aging_loop_auth_errors)

text \<open>
  C2 (the code departs from the claim). Two tenants; CMR gets its report, DJANGO gets a
  401, a fresh token and a 401 again, which is a failed authentication. The result
  lists DJANGO among the reports, with an empty table, and \<^verbatim>\<open>auth_errors\<close> is empty.
\<close>

theorem auth_failure_reported_as_empty_report:
  "fst (MultiTenantQB_get_ar_aging example_builtins (scripted_env no_vars) None two_tenants)
     = \<lparr>reports =
          [(''CMR'', [report_headers,
                      [PStr ''Acme'', PStr ''$0.00'', PStr ''$10.00''],
                      [PStr ''TOTAL'', PStr ''$0.00'', PStr ''$10.00'']]),
           (''DJANGO'', [])],
        auth_errors = []\<rparr>"
  by code_simp

section \<open>The formatter of the aging report\<close>

lemma money_cell_render:
  "money_cell B (PStr (case v of None \<Rightarrow> ''0.00'' | Some x \<Rightarrow> if x = [] then ''0.00'' else x))
     = Inr (PStr (render_money B v))"
  by (simp add: money_cell_def render_money_def Let_def split: sum.splits option.splits)

lemma get_value:
  "py_get (encode_col v) ''value'' d = Inr (case v of None \<Rightarrow> d | Some s \<Rightarrow> PStr s)"
  by (simp add: encode_col_def split: option.splits)

lemma format_cols_amounts:
  "0 < i \<Longrightarrow> format_cols B i (map encode_col vs) = Inr (map (\<lambda>v. PStr (render_money B v)) vs)"
proof (induction vs arbitrary: i)
  case Nil
  then show ?case by simp
next
  case (Cons v vs)
  have "format_cols B (Suc i) (map encode_col vs) = Inr (map (\<lambda>v. PStr (render_money B v)) vs)"
    by (rule Cons.IH) simp
  with Cons.prems money_cell_render [of B v] show ?case
    by (cases v) (auto simp: get_value)
qed

lemma format_cols_row:
  "format_cols B 0 (map encode_col (name # amounts))
     = Inr (PStr (case name of None \<Rightarrow> [] | Some n \<Rightarrow> n)
            # map (\<lambda>v. PStr (render_money B v)) amounts)"
  using format_cols_amounts [of "Suc 0" B amounts]
  by (cases name) (auto simp: get_value)

lemma get_ColData:
  "py_get (encode_row r) ''ColData'' PNone
     = Inr (case col_data r of None \<Rightarrow> PNone | Some cs \<Rightarrow> PList (map encode_col cs))"
  by (simp add: encode_row_def split: option.splits)

lemma get_type:
  "py_get (encode_row r) ''type'' PNone
     = Inr (case row_type r of None \<Rightarrow> PNone | Some t \<Rightarrow> PStr t)"
  by (simp add: encode_row_def split: option.splits)

lemma get_group:
  "py_get (encode_row r) ''group'' PNone
     = Inr (case row_group r of None \<Rightarrow> PNone | Some t \<Rightarrow> PStr t)"
  by (simp add: encode_row_def split: option.splits)

lemma get_Summary:
  "py_get (encode_row r) ''Summary'' (PDict [])
     = Inr (case summary r of None \<Rightarrow> PDict []
            | Some cs \<Rightarrow> PDict [(''ColData'', PList (map encode_col cs))])"
  by (simp add: encode_row_def split: option.splits)

lemma format_rows_encoded:
  "format_rows B (map encode_row rows) = Inr (map (data_row B) (filter is_data_row rows))"
proof (induction rows)
  case Nil
  then show ?case by simp
next
  case (Cons r rows)
  show ?case
  proof (cases "is_data_row r")
    case True
    then obtain name amounts where cd: "col_data r = Some (name # amounts)"
      by (cases "col_data r") (auto simp: is_data_row_def neq_Nil_conv)
    from True have ty: "row_type r \<noteq> Some ''Section''"
      by (simp add: is_data_row_def)
    have "format_cols B 0 (map encode_col (name # amounts)) = Inr (data_row B r)"
      by (simp only: format_cols_row data_row_def cd option.case list.case)
    with True cd ty Cons.IH show ?thesis
      by (auto simp: get_ColData get_type split: option.splits)
  next
    case False
    with Cons.IH show ?thesis
      by (auto simp: get_ColData get_type is_data_row_def split: option.splits)
  qed
qed

lemma format_total_cols_encoded:
  assumes "Some [] \<notin> set vs"
  shows "format_total_cols B (map encode_col vs) = Inr (map (\<lambda>v. PStr (render_money B v)) vs)"
  using assms
proof (induction vs)
  case Nil
  then show ?case by simp
next
  case (Cons v vs)
  then show ?case
    using money_cell_render [of B v]
    by (cases v) (auto simp: get_value)
qed

lemma total_rows_encoded:
  assumes "case find is_grand_total rows of
             None \<Rightarrow> True | Some r \<Rightarrow> Some [] \<notin> set (summary_amounts r)"
  shows "total_rows B (map encode_row rows)
           = Inr (case find is_grand_total rows of None \<Rightarrow> [] | Some r \<Rightarrow> [total_row B r])"
  using assms
proof (induction rows)
  case Nil
  then show ?case by simp
next
  case (Cons r rows)
  show ?case
  proof (cases "is_grand_total r")
    case True
    with Cons.prems have ne: "Some [] \<notin> set (summary_amounts r)"
      by simp
    from True ne show ?thesis
      by (auto simp: get_type get_group get_Summary is_grand_total_def total_row_def
            summary_amounts_def format_total_cols_encoded drop_map
            simp flip: drop_Suc split: option.splits)
  next
    case False
    with Cons.prems have "case find is_grand_total rows of
                            None \<Rightarrow> True | Some r \<Rightarrow> Some [] \<notin> set (summary_amounts r)"
      by simp
    then have ih: "total_rows B (map encode_row rows)
                     = Inr (case find is_grand_total rows of
                              None \<Rightarrow> [] | Some r \<Rightarrow> [total_row B r])"
      by (rule Cons.IH)
    have "total_rows B (map encode_row (r # rows)) = total_rows B (map encode_row rows)"
      using False
      by (auto simp: get_type get_group is_grand_total_def split: option.splits)
    with False ih show ?thesis
      by simp
  qed
qed

text \<open>
  C6 (amended). A payload that is empty or has no \<^verbatim>\<open>Rows\<close> gives the empty table, without
  a header row. A payload with \<^verbatim>\<open>Rows\<close> whose cells are strings gives the header row,
  then one row for each data row with the customer name unmodified and each later
  value rendered as money (empty as \<^verbatim>\<open>$0.00\<close>; a value that is no number is left as it
  is), and last the row \<^verbatim>\<open>TOTAL\<close> of the first grand total, when there is one, with
  its summary values after the first rendered the same way; the section rows are
  skipped. The statement is for payloads whose first grand total has no empty summary
  value.
\<close>

theorem format_ar_report_table:
  assumes "case find is_grand_total rows of
             None \<Rightarrow> True | Some r \<Rightarrow> Some [] \<notin> set (summary_amounts r)"
  shows "format_ar_report B (encode_report header columns rows) = Inr (aging_table B rows)
       \<and> (\<forall>report. \<not> truthy B report \<or> py_in ''Rows'' report = Inr False
            \<longrightarrow> format_ar_report B report = Inr [])"
  using total_rows_encoded [OF assms, of B]
  by (auto simp: format_ar_report_def encode_report_def format_rows_encoded aging_table_def)

text \<open>The theorem at the example of the specification: the data row
  \<^verbatim>\<open>["Acme", "", "$10.00"]\<close> and a grand total.\<close>

theorem format_ar_report_table_witness:
  "format_ar_report example_builtins (encode_report PNone PNone acme_rows)
     = Inr [report_headers,
            [PStr ''Acme'', PStr ''$0.00'', PStr ''$10.00''],
            [PStr ''TOTAL'', PStr ''$0.00'', PStr ''$10.00'']]"
proof -
  have h: "case find is_grand_total acme_rows of
             None \<Rightarrow> True | Some r \<Rightarrow> Some [] \<notin> set (summary_amounts r)"
    by code_simp
  have t: "aging_table example_builtins acme_rows
             = [report_headers,
                [PStr ''Acme'', PStr ''$0.00'', PStr ''$10.00''],
                [PStr ''TOTAL'', PStr ''$0.00'', PStr ''$10.00'']]"
    by code_simp
  from format_ar_report_table [OF h, of example_builtins PNone PNone] t show ?thesis
    by simp
qed

text \<open>
  C6 as stated fails: the payload the client returns for a failed request has no
  \<^verbatim>\<open>Rows\<close> and is formatted to the empty table, without the header row; and a value that
  is no number stays as it is in its money column.
\<close>

theorem no_header_and_unparsable_money:
  "format_ar_report example_builtins
     (PDict [(''error'', PStr ''QuickBooks API request failed: connection refused'')])
     = Inr []
   \<and> format_ar_report example_builtins (encode_report PNone PNone unparsable_rows)
     = Inr [report_headers, [PStr ''Acme'', PStr ''n/a'']]"
  by code_simp

text \<open>
  Outside that statement: an empty summary value of the grand total is not replaced by
  \<^verbatim>\<open>0.00\<close> as an empty value of a data row is; it stays empty in the row \<^verbatim>\<open>TOTAL\<close>.
\<close>

lemma empty_total_value_kept:
  "format_ar_report example_builtins
     (encode_report PNone PNone
        [\<lparr>row_type = Some ''Section'', row_group = Some ''GrandTotal'', col_data = None,
          summary = Some [Some ''TOTAL'', Some [], Some ''10.00'']\<rparr>])
     = Inr [report_headers, [PStr ''TOTAL'', PStr [], PStr ''$10.00'']]"
  by code_simp

section \<open>Normalization of transactions\<close>

lemma float_int_0: "float_int B 0 = Inr (float_of_int B 0)"
  by (simp add: float_int_def)

lemma extra_fields_keys:
  "extra_fields B txn t = Inr extra \<Longrightarrow> ''amount'' \<notin> fst ` set extra"
  by (auto simp: extra_fields_def split: if_splits dest!: bind_eq_Inr)

text \<open>A record that formats has as its amount the conversion of \<^verbatim>\<open>TotalAmt\<close>, or of
  \<^verbatim>\<open>0\<close> when that key is absent; the conversion has succeeded.\<close>

lemma format_transaction_amount:
  assumes "format_transaction B (PDict kvs) t = Inr f"
  shows "\<exists>amount.
           py_float B (case map_of kvs ''TotalAmt'' of None \<Rightarrow> PInt 0 | Some v \<Rightarrow> v) = Inr amount
         \<and> py_item f ''amount'' = Inr (PFloat amount)"
  using assms unfolding format_transaction_def
  by (clarsimp dest!: bind_eq_Inr simp: map_of_dict_update extra_fields_keys)

lemma format_transaction_balance:
  assumes "format_transaction B (PDict kvs) ''Bill'' = Inr f"
  shows "\<exists>balance.
           py_float B (case map_of kvs ''Balance'' of None \<Rightarrow> PInt 0 | Some v \<Rightarrow> v) = Inr balance
         \<and> py_item f ''balance'' = Inr (PFloat balance)"
  using assms unfolding format_transaction_def extra_fields_def
  by (clarsimp dest!: bind_eq_Inr simp: map_of_dict_set)

lemma format_line_amount:
  assumes "format_line B (PDict l) = Inr li"
  shows "\<exists>amount.
           py_float B (case map_of l ''Amount'' of None \<Rightarrow> PInt 0 | Some v \<Rightarrow> v) = Inr amount
         \<and> py_item li ''amount'' = Inr (PFloat amount)"
  using assms unfolding format_line_def
  by (clarsimp dest!: bind_eq_Inr split: option.splits)

lemma format_lines_member:
  assumes "format_lines B lines = Inr items" and "PDict l \<in> set lines"
    and "map_of l ''DetailType'' \<noteq> None"
  shows "\<exists>li. format_line B (PDict l) = Inr li"
  using assms
proof (induction lines arbitrary: items)
  case Nil
  then show ?case by simp
next
  case (Cons x lines)
  show ?case
  proof (cases "x = PDict l")
    case True
    with Cons.prems show ?thesis
      by (auto dest!: bind_eq_Inr split: if_splits)
  next
    case False
    with Cons.prems obtain items' where "format_lines B lines = Inr items'"
      by (auto dest!: bind_eq_Inr split: if_splits)
    with Cons.IH Cons.prems False show ?thesis by auto
  qed
qed

lemma format_transaction_lines:
  assumes "format_transaction B (PDict kvs) t = Inr f"
    and "map_of kvs ''Line'' = Some (PList lines)"
  shows "\<exists>items. format_lines B lines = Inr items"
  using assms unfolding format_transaction_def
  by (clarsimp dest!: bind_eq_Inr simp: as_list_def)

text \<open>
  C8 (amended). The total amount, the balance of a bill and the amount of a line are
  \<^verbatim>\<open>float(0)\<close> when their key is absent. When the key is there and \<^verbatim>\<open>float\<close> rejects its
  value, the record is not formatted: \<^verbatim>\<open>_format_transaction\<close> raises. A record that
  is an object and whose formatting raises is skipped by the loop of
  \<^verbatim>\<open>get_transactions\<close>, which goes on with the records after it and keeps what it has
  collected.
\<close>

theorem numeric_fields_default_only_when_absent:
  "(\<forall>f. format_transaction B (PDict kvs) t = Inr f \<and> map_of kvs ''TotalAmt'' = None
        \<longrightarrow> py_item f ''amount'' = Inr (PFloat (float_of_int B 0)))
   \<and> (\<forall>f. format_transaction B (PDict kvs) ''Bill'' = Inr f \<and> map_of kvs ''Balance'' = None
        \<longrightarrow> py_item f ''balance'' = Inr (PFloat (float_of_int B 0)))
   \<and> (\<forall>li. format_line B (PDict l) = Inr li \<and> map_of l ''Amount'' = None
        \<longrightarrow> py_item li ''amount'' = Inr (PFloat (float_of_int B 0)))
   \<and> (\<forall>v e. map_of kvs ''TotalAmt'' = Some v \<and> py_float B v = Inl e
        \<longrightarrow> format_transaction B (PDict kvs) t = Inl e)
   \<and> (\<forall>v e. map_of kvs ''Balance'' = Some v \<and> py_float B v = Inl e
        \<longrightarrow> (\<exists>e'. format_transaction B (PDict kvs) ''Bill'' = Inl e'))
   \<and> (\<forall>v e lines. map_of kvs ''Line'' = Some (PList lines) \<and> PDict l \<in> set lines
          \<and> map_of l ''DetailType'' \<noteq> None \<and> map_of l ''Amount'' = Some v
          \<and> py_float B v = Inl e
        \<longrightarrow> (\<exists>e'. format_transaction B (PDict kvs) t = Inl e'))
   \<and> (\<forall>e. format_transaction B (PDict kvs) t = Inl e
        \<longrightarrow> records_loop B t (PDict kvs # txns) acc = records_loop B t txns acc)"
proof (intro conjI allI impI; (elim conjE)?)
  fix f
  assume "format_transaction B (PDict kvs) t = Inr f" "map_of kvs ''TotalAmt'' = None"
  with format_transaction_amount [of B kvs t f]
  show "py_item f ''amount'' = Inr (PFloat (float_of_int B 0))"
    by (auto simp: float_int_0)
next
  fix f
  assume "format_transaction B (PDict kvs) ''Bill'' = Inr f" "map_of kvs ''Balance'' = None"
  with format_transaction_balance [of B kvs f]
  show "py_item f ''balance'' = Inr (PFloat (float_of_int B 0))"
    by (auto simp: float_int_0)
next
  fix li
  assume "format_line B (PDict l) = Inr li" "map_of l ''Amount'' = None"
  with format_line_amount [of B l li]
  show "py_item li ''amount'' = Inr (PFloat (float_of_int B 0))"
    by (auto simp: float_int_0)
next
  fix v e
  assume "map_of kvs ''TotalAmt'' = Some v" "py_float B v = Inl e"
  then show "format_transaction B (PDict kvs) t = Inl e"
    by (simp add: format_transaction_def)
next
  fix v e
  assume "map_of kvs ''Balance'' = Some v" "py_float B v = Inl e"
  with format_transaction_balance [of B kvs]
  show "\<exists>e'. format_transaction B (PDict kvs) ''Bill'' = Inl e'"
    by (cases "format_transaction B (PDict kvs) ''Bill''") auto
next
  fix v e lines
  assume a: "map_of kvs ''Line'' = Some (PList lines)" "PDict l \<in> set lines"
    "map_of l ''DetailType'' \<noteq> None" "map_of l ''Amount'' = Some v" "py_float B v = Inl e"
  show "\<exists>e'. format_transaction B (PDict kvs) t = Inl e'"
  proof (cases "format_transaction B (PDict kvs) t")
    case (Inl e')
    then show ?thesis by blast
  next
    case (Inr f)
    from format_transaction_lines [OF Inr a(1)]
    obtain items where "format_lines B lines = Inr items" ..
    from format_lines_member [OF this a(2,3)]
    obtain li where "format_line B (PDict l) = Inr li" ..
    from format_line_amount [OF this] a(4,5) show ?thesis by auto
  qed
next
  fix e
  assume "format_transaction B (PDict kvs) t = Inl e"
  then show "records_loop B t (PDict kvs # txns) acc = records_loop B t txns acc"
    by (cases acc) (simp add: format_error_handler_def)
qed

text \<open>The theorem at a record without amounts, which gets the amount \<^verbatim>\<open>0.0\<close>, and at a
  record whose total is the text \<^verbatim>\<open>abc\<close>, which raises and is skipped.\<close>

theorem numeric_fields_default_only_when_absent_witness:
  "bind (format_transaction example_builtins purchase_a ''Purchase'')
        (\<lambda>f. py_item f ''amount'') = Inr (PFloat 0)
   \<and> format_transaction example_builtins purchase_bad ''Purchase''
       = Inl (ValueError (''could not convert string to float: '' @ [CHR 0x27] @ ''abc''
                          @ [CHR 0x27]))
   \<and> records_loop example_builtins ''Purchase'' [purchase_bad, purchase_a] ([], [])
       = records_loop example_builtins ''Purchase'' [purchase_a] ([], [])
   \<and> fst (records_loop example_builtins ''Purchase'' [purchase_bad, purchase_a] ([], []))
       = Inr ()
   \<and> length (fst (snd (records_loop example_builtins ''Purchase'' [purchase_bad, purchase_a]
                          ([], [])))) = 1"
proof -
  let ?bad = "[(''Id'', PStr ''2''), (''TxnDate'', PStr ''2024-05-02''),
               (''TotalAmt'', PStr ''abc'')] :: (string \<times> rat pyval) list"
  let ?a = "[(''Id'', PStr ''1''), (''TxnDate'', PStr ''2024-05-01''),
             (''Line'', PList [expense_line []])] :: (string \<times> rat pyval) list"
  let ?msg = "''could not convert string to float: '' @ [CHR 0x27] @ ''abc'' @ [CHR 0x27]"
  have p: "py_float example_builtins (PStr ''abc'') = Inl (ValueError ?msg)"
    by code_simp
  have m: "map_of ?bad ''TotalAmt'' = Some (PStr ''abc'')"
    by simp
  have bad: "format_transaction example_builtins purchase_bad ''Purchase'' = Inl (ValueError ?msg)"
    using numeric_fields_default_only_when_absent
            [of example_builtins ?bad "''Purchase''" "[]" "[purchase_a]" "([], [])"]
          m p
    unfolding purchase_bad_def by blast
  have skip: "records_loop example_builtins ''Purchase'' [purchase_bad, purchase_a] ([], [])
                = records_loop example_builtins ''Purchase'' [purchase_a] ([], [])"
    using numeric_fields_default_only_when_absent
            [of example_builtins ?bad "''Purchase''" "[]" "[purchase_a]" "([], [])"]
          bad
    unfolding purchase_bad_def by blast
  have one: "fst (records_loop example_builtins ''Purchase'' [purchase_a] ([], [])) = Inr ()"
    "length (fst (snd (records_loop example_builtins ''Purchase'' [purchase_a] ([], [])))) = 1"
    by code_simp+
  have "case format_transaction example_builtins purchase_a ''Purchase'' of
          Inr f \<Rightarrow> True | Inl e \<Rightarrow> False"
    by code_simp
  then obtain f where f: "format_transaction example_builtins (PDict ?a) ''Purchase'' = Inr f"
    unfolding purchase_a_def by (auto split: sum.splits)
  have "map_of ?a ''TotalAmt'' = None"
    by simp
  with f numeric_fields_default_only_when_absent
         [of example_builtins ?a "''Purchase''" "[]" "[purchase_a]" "([], [])"]
  have "py_item f ''amount'' = Inr (PFloat (float_of_int example_builtins 0))"
    by blast
  with f have zero: "bind (format_transaction example_builtins purchase_a ''Purchase'')
                       (\<lambda>f. py_item f ''amount'') = Inr (PFloat 0)"
    by (simp add: purchase_a_def example_builtins_def)
  from zero bad skip one show ?thesis
    by simp
qed

text \<open>
  C8 as stated fails: a total amount that is no number, or that is \<^verbatim>\<open>null\<close>, does not
  default to 0; the record fails.
\<close>

theorem unparsable_amount_fails_record:
  "format_transaction example_builtins purchase_bad ''Purchase''
     = Inl (ValueError (''could not convert string to float: '' @ [CHR 0x27] @ ''abc''
                        @ [CHR 0x27]))
   \<and> format_transaction example_builtins
       (PDict [(''Id'', PStr ''4''), (''TotalAmt'', PNone)]) ''Purchase''
     = Inl TypeError"
  by code_simp

text \<open>
  A record that is no object is outside that statement: its formatting raises, and so
  does the log line of the handler, which ends the loop over the records of its kind.
  The records after it are not formatted; the records collected before it stay.
\<close>

lemma records_loop_non_object:
  assumes "\<forall>kvs. txn \<noteq> PDict kvs"
  shows "records_loop B t (txn # txns) acc = (Inl AttributeError, acc)"
  using assms
  by (cases txn; cases acc) (simp_all add: format_transaction_def format_error_handler_def)

section \<open>The retrieval of transactions and its last handler\<close>

text \<open>The outer \<^verbatim>\<open>try\<close> block fails exactly when the sort of the filtered transactions
  does, which takes two dates that cannot be compared.\<close>

lemma get_transactions_try_fails:
  "fst (get_transactions_try B E sd ed s) = Inl e \<longleftrightarrow>
     sort_by_date_desc B (snd (fst (kinds_loop B E sd ed transaction_types ([], []) s))) = Inl e"
  by (auto simp: get_transactions_try_def split: prod.splits sum.splits)

lemma sort_two_incomparable:
  "py_item a ''date'' = Inr ka \<Longrightarrow> py_item b ''date'' = Inr kb \<Longrightarrow> py_less B ka kb = Inl e
     \<Longrightarrow> sort_by_date_desc B [a, b] = Inl e"
  by (simp add: sort_by_date_desc_def)

text \<open>
  C10. When the outer \<^verbatim>\<open>try\<close> block of \<^verbatim>\<open>get_transactions\<close> raises, the call returns
  (it has no error result at all) the list of the one dummy transaction, with the id
  \<^verbatim>\<open>test123\<close>, the amount \<^verbatim>\<open>100.0\<close> and the account \<^verbatim>\<open>6300 Reimbursable Expenses\<close>,
  dated today.
\<close>

theorem get_transactions_dummy:
  assumes "get_transactions_try B E (date_or start_date (days_ago_100 E (world s)))
             (date_or end_date (today E (world s))) s = (Inl e, s')"
  shows "get_transactions B E start_date end_date s
           = ([dummy_transaction B (today E (world s'))], s')
       \<and> py_item (dummy_transaction B (today E (world s'))) ''id'' = Inr (PStr ''test123'')
       \<and> py_item (dummy_transaction B (today E (world s'))) ''amount''
           = Inr (PFloat (float_of_int B 100))
       \<and> py_item (dummy_transaction B (today E (world s'))) ''account_name''
           = Inr (PStr ''6300 Reimbursable Expenses'')"
  using assms by (simp add: get_transactions_def dummy_transaction_def)

text \<open>The theorem at an answer with two reimbursable purchases, one dated
  \<^verbatim>\<open>2024-05-01\<close> and one with the date \<^verbatim>\<open>null\<close>: the sort raises \<^verbatim>\<open>TypeError\<close>.\<close>

theorem get_transactions_dummy_witness:
  "fst (get_transactions_try example_builtins (scripted_env no_vars) ''2024-02-22'' ''2024-06-01''
          (start cmr_session mixed_dates)) = Inl TypeError
   \<and> fst (get_transactions example_builtins (scripted_env no_vars) None None
            (start cmr_session mixed_dates))
       = [dummy_transaction example_builtins ''2024-06-01'']"
proof -
  have f: "fst (get_transactions_try example_builtins (scripted_env no_vars) ''2024-02-22''
                  ''2024-06-01'' (start cmr_session mixed_dates)) = Inl TypeError"
    by code_simp
  then obtain s' where
    t: "get_transactions_try example_builtins (scripted_env no_vars) ''2024-02-22''
          ''2024-06-01'' (start cmr_session mixed_dates) = (Inl TypeError, s')"
    by (cases "get_transactions_try example_builtins (scripted_env no_vars) ''2024-02-22''
                 ''2024-06-01'' (start cmr_session mixed_dates)") auto
  have d: "date_or None (days_ago_100 (scripted_env no_vars)
                           (world (start cmr_session mixed_dates))) = ''2024-02-22''"
     "date_or None (today (scripted_env no_vars)
                      (world (start cmr_session mixed_dates))) = ''2024-06-01''"
     "today (scripted_env no_vars) (world s') = ''2024-06-01''"
    by (simp_all add: date_or_def scripted_env_def)
  from get_transactions_dummy [of example_builtins "scripted_env no_vars" None
         "start cmr_session mixed_dates" None TypeError s'] t d
  have "get_transactions example_builtins (scripted_env no_vars) None None
          (start cmr_session mixed_dates)
          = ([dummy_transaction example_builtins ''2024-06-01''], s')"
    by simp
  with f show ?thesis by simp
qed

section \<open>Invoice assembly\<close>

lemma first_seen_snoc:
  "first_seen (xs @ [c]) = (if c \<in> set xs then first_seen xs else first_seen xs @ [c])"
  by (simp add: first_seen_def)

lemma set_first_seen [simp]: "set (first_seen xs) = set xs"
  by (simp add: first_seen_def)

lemma distinct_first_seen [simp]: "distinct (first_seen xs)"
  by (simp add: first_seen_def)

lemma map_filter_snoc:
  "List.map_filter f (xs @ [x])
     = List.map_filter f xs @ (case f x of None \<Rightarrow> [] | Some y \<Rightarrow> [y])"
  by (simp add: List.map_filter_def split: option.splits)

lemma set_map_filter: "set (List.map_filter f xs) = {y. \<exists>x \<in> set xs. f x = Some y}"
  by (fastforce simp: List.map_filter_def image_iff)

lemma map_of_grouped:
  "map_of (grouped zs) c
     = (if c \<in> set (List.map_filter Customer zs)
        then Some (filter (\<lambda>i. Customer i = Some c) zs) else None)"
  by (auto simp: grouped_def map_of_map_restrict restrict_map_def)

text \<open>One step of the loop that fills \<^verbatim>\<open>customer_invoices\<close>.\<close>

lemma grouped_snoc:
  assumes "Customer x = Some c"
  shows "(case map_of (grouped ys) c of
            None \<Rightarrow> grouped ys @ [(c, [x])]
          | Some l \<Rightarrow> dict_set (grouped ys) c (l @ [x])) = grouped (ys @ [x])"
proof (cases "c \<in> set (List.map_filter Customer ys)")
  case True
  then have "map_of (grouped ys) c = Some (filter (\<lambda>i. Customer i = Some c) ys)"
    by (simp add: map_of_grouped)
  moreover have "dict_set (grouped ys) c (filter (\<lambda>i. Customer i = Some c) ys @ [x])
                   = grouped (ys @ [x])"
    using True assms
    by (auto simp: grouped_def dict_set_map map_filter_snoc first_seen_snoc)
  ultimately show ?thesis by simp
next
  case False
  then have "map_of (grouped ys) c = None"
    by (simp add: map_of_grouped)
  moreover from False have "filter (\<lambda>i. Customer i = Some c) ys = []"
    by (auto simp: set_map_filter filter_empty_conv)
  moreover have "\<And>k. k \<in> set (List.map_filter Customer ys) \<Longrightarrow> k \<noteq> c"
    using False by auto
  ultimately show ?thesis using False assms
    by (auto simp: grouped_def map_filter_snoc first_seen_snoc)
qed

lemma group_items_grouped:
  "\<forall>i \<in> set xs. Customer i \<noteq> None \<Longrightarrow> group_items xs (grouped ys) = Inr (grouped (ys @ xs))"
proof (induction xs arbitrary: ys)
  case Nil
  then show ?case by simp
next
  case (Cons x xs)
  then obtain c where c: "Customer x = Some c" by auto
  have "group_items (x # xs) (grouped ys) = group_items xs (grouped (ys @ [x]))"
    using grouped_snoc [OF c, of ys] by (simp add: c required_def)
  also have "\<dots> = Inr (grouped ((ys @ [x]) @ xs))"
    using Cons.prems by (intro Cons.IH) simp
  finally show ?case by simp
qed

lemma grouped_Nil: "grouped [] = []"
  by (simp add: grouped_def first_seen_def List.map_filter_def)

lemma customer_invoices_documents:
  assumes "\<forall>i \<in> set items. Customer i \<noteq> None"
  shows "customer_invoices items = Inr (documents items)"
proof -
  have "\<forall>i \<in> set (invoice_items items). Customer i \<noteq> None"
    using assms by (simp add: invoice_items_def)
  from group_items_grouped [OF this, of "[]"] show ?thesis
    by (simp add: customer_invoices_def documents_def grouped_Nil)
qed

lemma group_items_has_customers:
  "group_items xs acc = Inr g \<Longrightarrow> \<forall>i \<in> set xs. Customer i \<noteq> None"
  by (induction xs arbitrary: acc) (auto simp: required_def dest!: bind_eq_Inr split: option.splits)

lemma length_documents:
  assumes a: "\<forall>i \<in> set items. Customer i \<noteq> None"
  shows "length (documents items) = card (Customer ` set items)"
proof -
  have "length (documents items) = card (set (List.map_filter Customer (invoice_items items)))"
    by (simp add: documents_def grouped_def distinct_card [symmetric])
  also have "set (List.map_filter Customer (invoice_items items)) = the ` (Customer ` set items)"
    using a by (auto simp: set_map_filter invoice_items_def image_iff) force+
  also have "card \<dots> = card (Customer ` set items)"
    using a by (intro card_image inj_onI) (metis imageE option.collapse)
  finally show ?thesis .
qed

text \<open>The substring test and the split at the first occurrence, in terms of the
  decompositions of the string.\<close>

lemma starts_with_iff: "starts_with p s \<longleftrightarrow> (\<exists>v. s = p @ v)"
  by (induction p s rule: starts_with.induct) auto

lemma str_contains_iff: "str_contains p s \<longleftrightarrow> (\<exists>u v. s = u @ p @ v)"
proof (induction s)
  case Nil
  then show ?case by auto
next
  case (Cons c cs)
  have "(\<exists>u v. c # cs = u @ p @ v) \<longleftrightarrow> (\<exists>v. c # cs = p @ v) \<or> (\<exists>u v. cs = u @ p @ v)"
  proof
    assume "\<exists>u v. c # cs = u @ p @ v"
    then obtain u v where e: "c # cs = u @ p @ v" by blast
    show "(\<exists>v. c # cs = p @ v) \<or> (\<exists>u v. cs = u @ p @ v)"
    proof (cases u)
      case Nil
      with e show ?thesis by auto
    next
      case (Cons x u')
      with e have "cs = u' @ p @ v" by simp
      then show ?thesis by blast
    qed
  next
    assume "(\<exists>v. c # cs = p @ v) \<or> (\<exists>u v. cs = u @ p @ v)"
    then show "\<exists>u v. c # cs = u @ p @ v"
    proof
      assume "\<exists>v. c # cs = p @ v"
      then obtain v where "c # cs = [] @ p @ v" by auto
      then show ?thesis by blast
    next
      assume "\<exists>u v. cs = u @ p @ v"
      then obtain u v where "cs = u @ p @ v" by blast
      then have "c # cs = (c # u) @ p @ v" by simp
      then show ?thesis by blast
    qed
  qed
  with Cons show ?case by (simp add: starts_with_iff)
qed

lemma before_first_absent:
  "\<not> (\<exists>u v. s = u @ p @ v) \<Longrightarrow> before_first p s = s"
proof (induction s)
  case Nil
  then show ?case by simp
next
  case (Cons c cs)
  from Cons.prems have "\<not> starts_with p (c # cs)"
    by (metis append_Nil starts_with_iff)
  moreover from Cons.prems have "\<not> (\<exists>u v. cs = u @ p @ v)"
    by (metis append_Cons)
  ultimately show ?case using Cons.IH by simp
qed

lemma before_first_occurrence:
  assumes "p \<noteq> []" and "\<not> (\<exists>u v. a @ butlast p = u @ p @ v)"
  shows "before_first p (a @ p @ b) = a"
  using assms(2)
proof (induction a)
  case Nil
  from assms(1) obtain c cs where "p = c # cs" by (cases p) auto
  then have "before_first p (p @ b) = []"
    using starts_with_iff [of p "p @ b"] by auto
  then show ?case by simp
next
  case (Cons x a)
  have no: "\<not> starts_with p (x # a @ p @ b)"
  proof
    assume "starts_with p (x # a @ p @ b)"
    then obtain v where v: "x # a @ p @ b = p @ v"
      by (auto simp: starts_with_iff)
    have "length p \<le> length (x # a @ butlast p)"
      using assms(1) by (cases p rule: rev_cases) auto
    moreover have "x # a @ p @ b = (x # a @ butlast p) @ (last p # b)"
      using assms(1) by (cases p rule: rev_cases) auto
    ultimately have "take (length p) (x # a @ p @ b) = take (length p) (x # a @ butlast p)"
      by (metis take_append diff_is_0_eq take_0 append_Nil2)
    moreover from v have "take (length p) (x # a @ p @ b) = p"
      by simp
    ultimately have "x # a @ butlast p = p @ drop (length p) (x # a @ butlast p)"
      by (metis append_take_drop_id)
    then have "(x # a) @ butlast p = [] @ p @ drop (length p) (x # a @ butlast p)"
      by simp
    with Cons.prems show False by blast
  qed
  have "\<not> (\<exists>u v. a @ butlast p = u @ p @ v)"
  proof
    assume "\<exists>u v. a @ butlast p = u @ p @ v"
    then obtain u v where "a @ butlast p = u @ p @ v" by blast
    then have "(x # a) @ butlast p = (x # u) @ p @ v" by simp
    with Cons.prems show False by blast
  qed
  with Cons.IH have "before_first p (a @ p @ b) = a" .
  with no show ?case by simp
qed

lemma get_property_address_phrase:
  assumes "Description x = Some (a @ ''Management Fees'' @ b)"
    and "\<not> (\<exists>u v. a @ ''Management Fee'' = u @ ''Management Fees'' @ v)"
  shows "get_property_address x = strip a"
proof -
  have "str_contains ''Management Fees'' (a @ ''Management Fees'' @ b)"
    unfolding str_contains_iff by blast
  moreover have "before_first ''Management Fees'' (a @ ''Management Fees'' @ b) = a"
    using assms(2) by (intro before_first_occurrence) simp_all
  ultimately show ?thesis
    using assms(1) by (simp add: get_property_address_def)
qed

lemma get_property_address_hyphen:
  assumes "Description x = Some (a @ ''-'' @ b)"
    and "CHR ''-'' \<notin> set a"
    and "\<not> (\<exists>u v. a @ ''-'' @ b = u @ ''Management Fees'' @ v)"
  shows "get_property_address x = strip a"
proof -
  have "\<not> str_contains ''Management Fees'' (a @ ''-'' @ b)"
    unfolding str_contains_iff using assms(3) by blast
  moreover have "\<not> (\<exists>u v. a @ butlast ''-'' = u @ ''-'' @ v)"
    using assms(2) by auto
  then have "before_first ''-'' (a @ ''-'' @ b) = a"
    by (intro before_first_occurrence) simp_all
  ultimately show ?thesis
    using assms(1) by (simp add: get_property_address_def)
qed

lemma get_property_address_whole:
  assumes "Description x = Some d"
    and "CHR ''-'' \<notin> set d"
    and "\<not> (\<exists>u v. d = u @ ''Management Fees'' @ v)"
  shows "get_property_address x = strip d"
proof -
  have "\<not> str_contains ''Management Fees'' d"
    unfolding str_contains_iff using assms(3) by blast
  moreover have "\<not> (\<exists>u v. d = u @ ''-'' @ v)"
    using assms(2) by auto
  then have "before_first ''-'' d = d"
    by (rule before_first_absent)
  ultimately show ?thesis
    using assms(1) by (simp add: get_property_address_def)
qed

lemma sorted_invoice_items:
  "sorted_wrt (\<lambda>x y. get_property_address x < get_property_address y
                    \<or> (get_property_address x = get_property_address y
                       \<and> sort_date x \<le> sort_date y))
     (invoice_items items)"
proof -
  have "sorted (map invoice_key (invoice_items items))"
    by (simp add: invoice_items_def)
  then have "sorted_wrt (\<lambda>x y. invoice_key x \<le> invoice_key y) (invoice_items items)"
    by (simp add: sorted_map)
  then show ?thesis
    by (rule sorted_wrt_mono_rel [rotated]) (auto simp: invoice_key_def less_eq_prod_def)
qed

lemma stable_invoice_items:
  "filter (\<lambda>i. get_property_address i = a \<and> sort_date i = d) (invoice_items items)
     = filter (\<lambda>i. get_property_address i = a \<and> sort_date i = d) items"
  using sort_key_stable [of invoice_key "(a, d)" items]
  by (simp add: invoice_items_def invoice_key_def)

text \<open>
  C5. The lines are sorted by a stable sort, first by the address token and then by the
  date: the sorted sequence is in that order, has the same lines, and keeps the input
  order among lines of equal address and date. The address token is the description up
  to the first occurrence of \<^verbatim>\<open>Management Fees\<close> or, in a description without that
  phrase, up to the first hyphen (all of it when there is neither), without the white
  space at its ends; it is empty for a line without description. The date is the
  service date, or the invoice date when the service date is absent or empty (the
  empty text when both are). The sorted lines are then split by customer: one group for
  each distinct customer, holding exactly that customer's lines in their sorted order.
  The statement is for lines that all have a customer.
\<close>

theorem invoice_assembly_order:
  assumes "\<forall>i \<in> set items. Customer i \<noteq> None"
  shows "customer_invoices items = Inr (documents items)
       \<and> sorted_wrt (\<lambda>x y. get_property_address x < get_property_address y
                           \<or> (get_property_address x = get_property_address y
                              \<and> sort_date x \<le> sort_date y))
           (invoice_items items)
       \<and> mset (invoice_items items) = mset items
       \<and> (\<forall>a d. filter (\<lambda>i. get_property_address i = a \<and> sort_date i = d)
                    (invoice_items items)
                  = filter (\<lambda>i. get_property_address i = a \<and> sort_date i = d) items)
       \<and> (\<forall>x \<in> set items. \<forall>a b.
             Description x = Some (a @ ''Management Fees'' @ b)
             \<and> \<not> (\<exists>u v. a @ ''Management Fee'' = u @ ''Management Fees'' @ v)
             \<longrightarrow> get_property_address x = strip a)
       \<and> (\<forall>x \<in> set items. \<forall>a b.
             Description x = Some (a @ ''-'' @ b) \<and> CHR ''-'' \<notin> set a
             \<and> \<not> (\<exists>u v. a @ ''-'' @ b = u @ ''Management Fees'' @ v)
             \<longrightarrow> get_property_address x = strip a)
       \<and> (\<forall>x \<in> set items. \<forall>d.
             Description x = Some d \<and> CHR ''-'' \<notin> set d
             \<and> \<not> (\<exists>u v. d = u @ ''Management Fees'' @ v)
             \<longrightarrow> get_property_address x = strip d)
       \<and> (\<forall>x \<in> set items. Description x = None \<longrightarrow> get_property_address x = [])
       \<and> (\<forall>x \<in> set items. \<forall>d. ServiceDate x = Some d \<and> d \<noteq> [] \<longrightarrow> sort_date x = d)
       \<and> (\<forall>x \<in> set items. \<forall>d.
             (ServiceDate x = None \<or> ServiceDate x = Some []) \<and> InvoiceDate x = Some d
             \<longrightarrow> sort_date x = d)
       \<and> (\<forall>x \<in> set items.
             (ServiceDate x = None \<or> ServiceDate x = Some []) \<and> InvoiceDate x = None
             \<longrightarrow> sort_date x = [])
       \<and> distinct (map fst (documents items))
       \<and> set (map fst (documents items)) = {c. \<exists>i \<in> set items. Customer i = Some c}
       \<and> (\<forall>(c, l) \<in> set (documents items).
             l = filter (\<lambda>i. Customer i = Some c) (invoice_items items))"
proof (intro conjI)
  show "customer_invoices items = Inr (documents items)"
    by (rule customer_invoices_documents [OF assms])
  show "sorted_wrt (\<lambda>x y. get_property_address x < get_property_address y
                         \<or> (get_property_address x = get_property_address y
                            \<and> sort_date x \<le> sort_date y))
          (invoice_items items)"
    by (rule sorted_invoice_items)
  show "mset (invoice_items items) = mset items"
    by (simp add: invoice_items_def)
  show "\<forall>a d. filter (\<lambda>i. get_property_address i = a \<and> sort_date i = d)
                 (invoice_items items)
               = filter (\<lambda>i. get_property_address i = a \<and> sort_date i = d) items"
    by (simp add: stable_invoice_items)
  show "\<forall>x \<in> set items. \<forall>a b.
          Description x = Some (a @ ''Management Fees'' @ b)
          \<and> \<not> (\<exists>u v. a @ ''Management Fee'' = u @ ''Management Fees'' @ v)
          \<longrightarrow> get_property_address x = strip a"
    using get_property_address_phrase by blast
  show "\<forall>x \<in> set items. \<forall>a b.
          Description x = Some (a @ ''-'' @ b) \<and> CHR ''-'' \<notin> set a
          \<and> \<not> (\<exists>u v. a @ ''-'' @ b = u @ ''Management Fees'' @ v)
          \<longrightarrow> get_property_address x = strip a"
    using get_property_address_hyphen by blast
  show "\<forall>x \<in> set items. \<forall>d.
          Description x = Some d \<and> CHR ''-'' \<notin> set d
          \<and> \<not> (\<exists>u v. d = u @ ''Management Fees'' @ v)
          \<longrightarrow> get_property_address x = strip d"
    using get_property_address_whole by blast
  show "\<forall>x \<in> set items. Description x = None \<longrightarrow> get_property_address x = []"
    by (simp add: get_property_address_def strip_def)
  show "\<forall>x \<in> set items. \<forall>d. ServiceDate x = Some d \<and> d \<noteq> [] \<longrightarrow> sort_date x = d"
    by (simp add: sort_date_def)
  show "\<forall>x \<in> set items.
          (ServiceDate x = None \<or> ServiceDate x = Some []) \<and> InvoiceDate x = None
          \<longrightarrow> sort_date x = []"
    by (auto simp: sort_date_def)
  show "\<forall>x \<in> set items. \<forall>d.
          (ServiceDate x = None \<or> ServiceDate x = Some []) \<and> InvoiceDate x = Some d
          \<longrightarrow> sort_date x = d"
    by (auto simp: sort_date_def)
  show "distinct (map fst (documents items))"
    by (simp add: documents_def grouped_def comp_def)
  show "set (map fst (documents items)) = {c. \<exists>i \<in> set items. Customer i = Some c}"
    by (auto simp: documents_def grouped_def comp_def set_map_filter invoice_items_def)
  show "\<forall>(c, l) \<in> set (documents items).
          l = filter (\<lambda>i. Customer i = Some c) (invoice_items items)"
    by (auto simp: documents_def grouped_def)
qed

text \<open>The theorem at the example of the specification, the addresses and dates
  \<^verbatim>\<open>("B St", "2024-02-01"), ("A St", "2024-01-01"), ("A St", "2024-03-01")\<close> of one
  customer, and a line of a second customer.\<close>

theorem invoice_assembly_order_witness:
  "map (\<lambda>x. (get_property_address x, sort_date x)) example_lines
     = [(''B St'', ''2024-02-01''), (''A St'', ''2024-01-01''), (''A St'', ''2024-03-01''),
        (''A St'', ''2024-02-15'')]
   \<and> customer_invoices example_lines
     = Inr [(''Alpha'',
             [dated_line ''Alpha'' ''A St - Rent'' ''2024-01-31'' (Some ''2024-01-01''),
              dated_line ''Alpha'' ''A St Management Fees'' ''2024-03-01'' None,
              dated_line ''Alpha'' ''B St Management Fees - February'' ''2024-01-31''
                (Some ''2024-02-01'')]),
            (''Beta'',
             [dated_line ''Beta'' (''A St'' @ [CHR 0xA0] @ ''- Water'') ''2024-02-15''
                (Some [])])]"
proof -
  let ?l1 = "dated_line ''Alpha'' ''B St Management Fees - February'' ''2024-01-31''
               (Some ''2024-02-01'')"
  let ?l2 = "dated_line ''Alpha'' ''A St - Rent'' ''2024-01-31'' (Some ''2024-01-01'')"
  let ?l3 = "dated_line ''Alpha'' ''A St Management Fees'' ''2024-03-01'' None"
  let ?l4 = "dated_line ''Beta'' (''A St'' @ [CHR 0xA0] @ ''- Water'') ''2024-02-15'' (Some [])"
  have h: "\<forall>i \<in> set example_lines. Customer i \<noteq> None"
    by code_simp
  note order = invoice_assembly_order [OF h]
  note rest = order [THEN conjunct2, THEN conjunct2, THEN conjunct2, THEN conjunct2]
  note phrase = rest [THEN conjunct1, rule_format]
  note hyphen = rest [THEN conjunct2, THEN conjunct1, rule_format]
  note dates = rest [THEN conjunct2, THEN conjunct2, THEN conjunct2, THEN conjunct2]
  note service = dates [THEN conjunct1, rule_format]
  note fallback = dates [THEN conjunct2, THEN conjunct1, rule_format]
  have mem: "?l1 \<in> set example_lines" "?l2 \<in> set example_lines" "?l3 \<in> set example_lines"
    "?l4 \<in> set example_lines"
    by (simp_all add: example_lines_def)
  have d: "documents example_lines = [(''Alpha'', [?l2, ?l3, ?l1]), (''Beta'', [?l4])]"
    by code_simp
  from order [THEN conjunct1] d have groups:
    "customer_invoices example_lines = Inr [(''Alpha'', [?l2, ?l3, ?l1]), (''Beta'', [?l4])]"
    by simp
  have "\<not> str_contains ''Management Fees'' (''B St '' @ ''Management Fee'')"
    by code_simp
  then have "\<not> (\<exists>u v. ''B St '' @ ''Management Fee'' = u @ ''Management Fees'' @ v)"
    unfolding str_contains_iff .
  moreover have "Description ?l1 = Some (''B St '' @ ''Management Fees'' @ '' - February'')"
    by (simp add: dated_line_def)
  ultimately have "get_property_address ?l1 = strip ''B St ''"
    using phrase [OF mem(1), of "''B St ''" "'' - February''"] by blast
  moreover have "strip ''B St '' = ''B St''"
    by code_simp
  ultimately have a1: "get_property_address ?l1 = ''B St''"
    by simp
  have "\<not> str_contains ''Management Fees'' (''A St '' @ ''-'' @ '' Rent'')"
    by code_simp
  then have "\<not> (\<exists>u v. ''A St '' @ ''-'' @ '' Rent'' = u @ ''Management Fees'' @ v)"
    unfolding str_contains_iff .
  moreover have "Description ?l2 = Some (''A St '' @ ''-'' @ '' Rent'')"
    "CHR ''-'' \<notin> set ''A St ''"
    by (simp_all add: dated_line_def)
  ultimately have "get_property_address ?l2 = strip ''A St ''"
    using hyphen [OF mem(2), of "''A St ''" "'' Rent''"] by blast
  moreover have "strip ''A St '' = ''A St''"
    by code_simp
  ultimately have a2: "get_property_address ?l2 = ''A St''"
    by simp
  have "ServiceDate ?l3 = None" "InvoiceDate ?l3 = Some ''2024-03-01''"
    by (simp_all add: dated_line_def)
  with fallback [OF mem(3), of "''2024-03-01''"] have d3: "sort_date ?l3 = ''2024-03-01''"
    by blast
  have "ServiceDate ?l4 = Some []" "InvoiceDate ?l4 = Some ''2024-02-15''"
    by (simp_all add: dated_line_def)
  with fallback [OF mem(4), of "''2024-02-15''"] have d4: "sort_date ?l4 = ''2024-02-15''"
    by blast
  have "ServiceDate ?l1 = Some ''2024-02-01''" "ServiceDate ?l2 = Some ''2024-01-01''"
    by (simp_all add: dated_line_def)
  with service [OF mem(1), of "''2024-02-01''"] service [OF mem(2), of "''2024-01-01''"]
  have d12: "sort_date ?l1 = ''2024-02-01''" "sort_date ?l2 = ''2024-01-01''"
    by simp_all
  have a34: "get_property_address ?l3 = ''A St''" "get_property_address ?l4 = ''A St''"
    by code_simp+
  from a1 a2 a34 d12 d3 d4 groups show ?thesis
    by (simp add: example_lines_def)
qed

section \<open>Invoice creation: failures and the shape of the result\<close>

lemma invoices_loop_length:
  "invoices_loop B E groups results s = (Inr rs, s')
     \<Longrightarrow> length rs = length results + length groups"
proof (induction groups arbitrary: results s)
  case Nil
  then show ?case by simp
next
  case (Cons g groups)
  obtain c its where g: "g = (c, its)" by (cases g)
  from Cons.prems obtain inv s1 where
    "customer_invoice B E c its s = (Inr inv, s1)"
    "invoices_loop B E groups (results @ [inv]) s1 = (Inr rs, s')"
    by (auto simp: g split: prod.splits sum.splits)
  with Cons.IH [of "results @ [inv]" s1] show ?case by simp
qed

lemma invoices_loop_append:
  "invoices_loop B E (xs @ ys) results s =
     (case invoices_loop B E xs results s of
        (Inl e, s') \<Rightarrow> (Inl e, s')
      | (Inr rs, s') \<Rightarrow> invoices_loop B E ys rs s')"
proof (induction xs arbitrary: results s)
  case Nil
  then show ?case by simp
next
  case (Cons g xs)
  obtain c its where g: "g = (c, its)" by (cases g)
  show ?case
    by (simp add: g Cons.IH split: prod.splits sum.splits)
qed

text \<open>
  C4 (amended). When the invoice of one customer fails (the customer is not found, an
  item is not resolved, or the submission fails), \<^verbatim>\<open>create_invoice\<close> raises that error
  and ends in the state reached at the failure: the customers after it in the grouping
  are not attempted, whatever they are, and the invoices submitted for the customers
  before it stay submitted.
\<close>

theorem create_invoice_aborts:
  assumes groups: "customer_invoices items = Inr (before @ (customer, customer_items) # after)"
    and earlier: "invoices_loop B E before [] s = (Inr results, s1)"
    and failure: "customer_invoice B E customer customer_items s1 = (Inl e, s2)"
  shows "create_invoice B E items s = (Inl e, s2)"
proof -
  have "items \<noteq> []"
    using groups by (auto simp: customer_invoices_def invoice_items_def)
  moreover have "invoices_loop B E (before @ (customer, customer_items) # after) [] s
                   = (Inl e, s2)"
    by (simp add: invoices_loop_append earlier failure)
  ultimately show ?thesis
    by (simp add: create_invoice_def groups)
qed

text \<open>The theorem at a run where Alpha is invoiced and Beta is not found: the error is
  Beta's, after five requests, the fourth of which submitted the invoice of Alpha.\<close>

theorem create_invoice_aborts_witness:
  "fst (create_invoice example_builtins (scripted_env no_vars) three_lines
          (start cmr_session beta_fails))
     = Inl (Exception ''Customer 'Beta' not found in QuickBooks'')
   \<and> map req_method (sent (snd (create_invoice example_builtins (scripted_env no_vars)
                                   three_lines (start cmr_session beta_fails))))
     = [''GET'', ''GET'', ''GET'', ''POST'', ''GET'']"
proof -
  let ?B = example_builtins and ?E = "scripted_env no_vars"
  let ?alpha = "[request_line ''Alpha'' ''A St - Rent'' ''2024-01-01'',
                 request_line ''Alpha'' ''B St Management Fees - February'' ''2024-02-01'']"
  let ?beta = "[request_line ''Beta'' ''A St Management Fees'' ''2024-03-01'']"
  let ?l = "invoices_loop ?B ?E [(''Alpha'', ?alpha)] [] (start cmr_session beta_fails)"
  let ?c = "customer_invoice ?B ?E ''Beta'' ?beta (snd ?l)"
  have g: "customer_invoices three_lines = Inr ([(''Alpha'', ?alpha)] @ (''Beta'', ?beta) # [])"
    by code_simp
  have "fst ?l = Inr [alpha_invoice ''Alpha'']"
    by code_simp
  then have l: "?l = (Inr [alpha_invoice ''Alpha''], snd ?l)"
    by (simp add: prod_eq_iff)
  have "fst ?c = Inl (Exception ''Customer 'Beta' not found in QuickBooks'')"
    by code_simp
  then have c: "?c = (Inl (Exception ''Customer 'Beta' not found in QuickBooks''), snd ?c)"
    by (simp add: prod_eq_iff)
  have m: "map req_method (sent (snd ?c)) = [''GET'', ''GET'', ''GET'', ''POST'', ''GET'']"
    by code_simp
  from create_invoice_aborts [OF g l c] m show ?thesis
    by simp
qed

text \<open>
  C4 as stated fails: Alpha, the first customer of the run, is not found; the call
  raises after that one request, and the answers that were ready for Beta are never
  asked for.
\<close>

theorem later_customers_not_attempted:
  "fst (create_invoice example_builtins (scripted_env no_vars) three_lines
          (start cmr_session alpha_fails))
     = Inl (Exception ''Customer 'Alpha' not found in QuickBooks'')
   \<and> length (sent (snd (create_invoice example_builtins (scripted_env no_vars) three_lines
                          (start cmr_session alpha_fails)))) = 1
   \<and> replies (world (snd (create_invoice example_builtins (scripted_env no_vars) three_lines
                            (start cmr_session alpha_fails))))
     = [reply 200 (Some customer_reply), reply 200 (Some item_reply),
        reply 200 (Some invoice_reply)]"
  by code_simp

lemma result_of_cases:
  "(length rs = 1 \<longrightarrow> (\<exists>inv. result_of rs = One inv \<and> rs = [inv]))
   \<and> (length rs \<noteq> 1 \<longrightarrow> result_of rs = Several rs)"
  by (cases rs; cases "tl rs") (auto simp: result_of_def)

text \<open>
  C9. An empty list of lines is rejected with \<^verbatim>\<open>ValueError\<close> and nothing is sent. A
  call that returns gives one invoice when the lines have one customer, and the list
  of the invoices, one for each customer, when they have more than one.
\<close>

theorem create_invoice_result_shape:
  "create_invoice B E [] s = (Inl (ValueError ''No items provided for invoice creation''), s)
   \<and> (\<forall>r s'. create_invoice B E items s = (Inr r, s') \<longrightarrow>
         (card (Customer ` set items) = 1 \<longrightarrow> (\<exists>inv. r = One inv))
       \<and> (card (Customer ` set items) \<noteq> 1 \<longrightarrow>
            (\<exists>invs. r = Several invs \<and> length invs = card (Customer ` set items)
                    \<and> 1 < length invs)))"
proof (intro conjI allI impI)
  show "create_invoice B E [] s
          = (Inl (ValueError ''No items provided for invoice creation''), s)"
    by (simp add: create_invoice_def)
next
  fix r s'
  assume ok: "create_invoice B E items s = (Inr r, s')"
  then have ne: "items \<noteq> []"
    by (auto simp: create_invoice_def)
  from ok ne obtain groups results where
    g: "customer_invoices items = Inr groups"
    and l: "invoices_loop B E groups [] s = (Inr results, s')"
    and r: "r = result_of results"
    by (auto simp: create_invoice_def split: sum.splits prod.splits)
  from g have cust: "\<forall>i \<in> set items. Customer i \<noteq> None"
    using group_items_has_customers [of "invoice_items items" "[]" groups]
    by (simp add: customer_invoices_def invoice_items_def)
  with g have "groups = documents items"
    by (simp add: customer_invoices_documents)
  with cust have "length groups = card (Customer ` set items)"
    by (simp add: length_documents)
  with invoices_loop_length [OF l] have len: "length results = card (Customer ` set items)"
    by simp
  from ne have pos: "0 < card (Customer ` set items)"
    by (simp add: card_gt_0_iff)
  { assume "card (Customer ` set items) = 1"
    with len r result_of_cases [of results] show "\<exists>inv. r = One inv" by auto }
  { assume "card (Customer ` set items) \<noteq> 1"
    with len r pos result_of_cases [of results]
    show "\<exists>invs. r = Several invs \<and> length invs = card (Customer ` set items)
                 \<and> 1 < length invs"
      by auto }
qed

text \<open>The theorem at the empty list, at the lines of two customers and at the lines of
  one.\<close>

theorem create_invoice_result_shape_witness:
  "create_invoice example_builtins (scripted_env no_vars) [] (start cmr_session all_answered)
     = (Inl (ValueError ''No items provided for invoice creation''),
        start cmr_session all_answered)
   \<and> fst (create_invoice example_builtins (scripted_env no_vars) three_lines
            (start cmr_session all_answered))
     = Inr (Several [alpha_invoice ''Alpha'', alpha_invoice ''Beta''])
   \<and> card (Customer ` set three_lines) = 2
   \<and> fst (create_invoice example_builtins (scripted_env no_vars) (take 2 three_lines)
            (start cmr_session all_answered))
     = Inr (One (alpha_invoice ''Alpha''))
   \<and> card (Customer ` set (take 2 three_lines)) = 1"
proof -
  let ?B = example_builtins and ?E = "scripted_env no_vars"
  let ?s = "start cmr_session all_answered"
  let ?two = "create_invoice ?B ?E three_lines ?s"
  let ?one = "create_invoice ?B ?E (take 2 three_lines) ?s"
  have two: "fst ?two = Inr (Several [alpha_invoice ''Alpha'', alpha_invoice ''Beta''])"
    by code_simp
  then have t: "?two = (Inr (Several [alpha_invoice ''Alpha'', alpha_invoice ''Beta'']), snd ?two)"
    by (simp add: prod_eq_iff)
  have one: "fst ?one = Inr (One (alpha_invoice ''Alpha''))"
    by code_simp
  then have o: "?one = (Inr (One (alpha_invoice ''Alpha'')), snd ?one)"
    by (simp add: prod_eq_iff)
  note shape2 = create_invoice_result_shape [of ?B ?E ?s three_lines]
  note shape1 = create_invoice_result_shape [of ?B ?E ?s "take 2 three_lines"]
  from shape2 have empty: "create_invoice ?B ?E [] ?s
          = (Inl (ValueError ''No items provided for invoice creation''), ?s)"
    by blast
  from shape2 t have c2: "card (Customer ` set three_lines) = 2"
    by (cases "card (Customer ` set three_lines) = 1") fastforce+
  from shape1 o have c1: "card (Customer ` set (take 2 three_lines)) = 1"
    by (cases "card (Customer ` set (take 2 three_lines)) = 1") fastforce+
  from empty two one c1 c2 show ?thesis by simp
qed

end
